theory Spec2Isabelle
  imports Main
begin

section \<open>Python values shared by the components\<close>

text \<open>
  An exception object: the name of its class (\<^verbatim>\<open>type(e).__name__\<close>) and its text
  (\<^verbatim>\<open>str(e)\<close>). Only subclasses of \<^verbatim>\<open>Exception\<close> are modelled, which is what every
  \<^verbatim>\<open>except Exception\<close> handler of the repository catches.
\<close>

datatype exn = Exn (exn_type: string) (exn_str: string)

text \<open>
  Values decoded from JSON (the entities the model returns, the chat completion response)
  and, more generally, dynamically typed arguments. Numbers are integers: JSON floats are
  not modelled. A Python \<^verbatim>\<open>dict\<close> is an association list with distinct keys and
  \<^verbatim>\<open>None\<close> is \<open>JNull\<close>.
\<close>

datatype json =
    JNull
  | JBool bool
  | JNum int
  | JStr string
  | JArr "json list"
  | JObj "(string \<times> json) list"

text \<open>Truth value of a Python object, as \<^verbatim>\<open>not x\<close> and \<^verbatim>\<open>if x\<close> test it.\<close>

fun truthy :: "json \<Rightarrow> bool" where
  "truthy JNull = False"
| "truthy (JBool b) = b"
| "truthy (JNum n) = (n \<noteq> 0)"
| "truthy (JStr s) = (s \<noteq> [])"
| "truthy (JArr xs) = (xs \<noteq> [])"
| "truthy (JObj kvs) = (kvs \<noteq> [])"

type_synonym entities = "(string \<times> json) list"

text \<open>\<^verbatim>\<open>d.get(k)\<close> and \<^verbatim>\<open>d.get(k, default)\<close>.\<close>

definition dict_get :: "entities \<Rightarrow> string \<Rightarrow> json" where
  "dict_get d k = (case map_of d k of Some v \<Rightarrow> v | None \<Rightarrow> JNull)"

definition dict_get_default :: "entities \<Rightarrow> string \<Rightarrow> json \<Rightarrow> json" where
  "dict_get_default d k dflt = (case map_of d k of Some v \<Rightarrow> v | None \<Rightarrow> dflt)"

text \<open>
  \<^verbatim>\<open>type(v).__name__\<close>, and a text between apostrophes as Python's messages quote a
  name.
\<close>

fun py_type_name :: "json \<Rightarrow> string" where
  "py_type_name JNull = ''NoneType''"
| "py_type_name (JBool b) = ''bool''"
| "py_type_name (JNum n) = ''int''"
| "py_type_name (JStr s) = ''str''"
| "py_type_name (JArr xs) = ''list''"
| "py_type_name (JObj kvs) = ''dict''"

definition quoted :: "string \<Rightarrow> string" where
  "quoted s = CHR 0x27 # s @ [CHR 0x27]"

text \<open>
  Subscripts, \<^verbatim>\<open>in\<close> and \<^verbatim>\<open>len\<close> on a decoded value, with the exception Python raises
  when the value has the wrong shape: \<^verbatim>\<open>v[k]\<close> for a string key, \<^verbatim>\<open>v[0]\<close>,
  \<^verbatim>\<open>needle in v\<close> for a string needle and \<^verbatim>\<open>len(v)\<close>. These four are used by the
  extractor and the orchestrator, which read the class of an exception and never its
  text; the texts are abridged.
\<close>

definition py_getitem_key :: "json \<Rightarrow> string \<Rightarrow> exn + json" where
  "py_getitem_key v k =
     (case v of
        JObj kvs \<Rightarrow> (case map_of kvs k of Some x \<Rightarrow> Inr x | None \<Rightarrow> Inl (Exn ''KeyError'' k))
      | _ \<Rightarrow> Inl (Exn ''TypeError'' ''indices must be integers or object is not subscriptable''))"

definition py_getitem_0 :: "json \<Rightarrow> exn + json" where
  "py_getitem_0 v =
     (case v of
        JArr xs \<Rightarrow> (case xs of [] \<Rightarrow> Inl (Exn ''IndexError'' ''list index out of range'')
                     | x # _ \<Rightarrow> Inr x)
      | JStr s \<Rightarrow> (case s of [] \<Rightarrow> Inl (Exn ''IndexError'' ''string index out of range'')
                     | c # _ \<Rightarrow> Inr (JStr [c]))
      | JObj kvs \<Rightarrow> Inl (Exn ''KeyError'' ''0'')
      | _ \<Rightarrow> Inl (Exn ''TypeError'' ''object is not subscriptable''))"

definition py_len :: "json \<Rightarrow> exn + nat" where
  "py_len v =
     (case v of
        JObj kvs \<Rightarrow> Inr (length kvs)
      | JArr xs \<Rightarrow> Inr (length xs)
      | JStr s \<Rightarrow> Inr (length s)
      | _ \<Rightarrow> Inl (Exn ''TypeError'' ''object has no len()''))"

text \<open>
  Iteration \<^verbatim>\<open>for x in v\<close>: the elements of a list, the characters of a string, the
  keys of a dictionary; anything else raises \<^verbatim>\<open>TypeError\<close> with the text
  \<^verbatim>\<open>'int' object is not iterable\<close> (with the name of the value's type).
\<close>

definition iterate :: "json \<Rightarrow> exn + json list" where
  "iterate v =
     (case v of
        JArr xs \<Rightarrow> Inr xs
      | JStr s \<Rightarrow> Inr (map (\<lambda>c. JStr [c]) s)
      | JObj kvs \<Rightarrow> Inr (map (\<lambda>(k, _). JStr k) kvs)
      | _ \<Rightarrow> Inl (Exn ''TypeError'' (quoted (py_type_name v) @ '' object is not iterable'')))"

section \<open>Strings\<close>

text \<open>
  A text is a list of 8-bit characters, read as code points below 256. The character
  classes are those of Python's \<^verbatim>\<open>re\<close> on \<^verbatim>\<open>str\<close> patterns: \<^verbatim>\<open>[A-Z]\<close>, \<^verbatim>\<open>[a-z]\<close> and
  \<^verbatim>\<open>\s\<close>, which below 256 is the set \<^verbatim>\<open>str.isspace\<close> accepts. \<^verbatim>\<open>lower()\<close> and
  \<^verbatim>\<open>upper()\<close> are modelled on the ASCII letters; the other characters below 256 never
  map to an ASCII letter, so the substring tests against ASCII words and the lookup of
  the upper-case mode names decide as Python does.
\<close>

definition is_upper :: "char \<Rightarrow> bool" where
  "is_upper c = (c \<in> set ''ABCDEFGHIJKLMNOPQRSTUVWXYZ'')"

definition is_lower :: "char \<Rightarrow> bool" where
  "is_lower c = (c \<in> set ''abcdefghijklmnopqrstuvwxyz'')"

definition is_space :: "char \<Rightarrow> bool" where
  "is_space c = (c \<in> set [CHR 0x09, CHR 0x0A, CHR 0x0B, CHR 0x0C, CHR 0x0D,
       CHR 0x1C, CHR 0x1D, CHR 0x1E, CHR 0x1F, CHR 0x20, CHR 0x85, CHR 0xA0])"

definition lower_char :: "char \<Rightarrow> char" where
  "lower_char c =
     (case map_of (zip ''ABCDEFGHIJKLMNOPQRSTUVWXYZ'' ''abcdefghijklmnopqrstuvwxyz'') c of
        Some l \<Rightarrow> l | None \<Rightarrow> c)"

definition upper_char :: "char \<Rightarrow> char" where
  "upper_char c =
     (case map_of (zip ''abcdefghijklmnopqrstuvwxyz'' ''ABCDEFGHIJKLMNOPQRSTUVWXYZ'') c of
        Some u \<Rightarrow> u | None \<Rightarrow> c)"

definition py_lower :: "string \<Rightarrow> string" where
  "py_lower s = map lower_char s"

definition py_upper :: "string \<Rightarrow> string" where
  "py_upper s = map upper_char s"

definition py_strip :: "string \<Rightarrow> string" where
  "py_strip s = rev (dropWhile is_space (rev (dropWhile is_space s)))"

definition py_replace_char :: "char \<Rightarrow> char \<Rightarrow> string \<Rightarrow> string" where
  "py_replace_char old new s = map (\<lambda>c. if c = old then new else c) s"

text \<open>\<open>strip_prefix p s\<close> is what follows \<open>p\<close> in \<open>s\<close> when \<open>s\<close> starts with \<open>p\<close>;
  \<open>py_in needle s\<close> is \<^verbatim>\<open>needle in s\<close>.\<close>

fun strip_prefix :: "string \<Rightarrow> string \<Rightarrow> string option" where
  "strip_prefix [] s = Some s"
| "strip_prefix (p # ps) [] = None"
| "strip_prefix (p # ps) (c # cs) = (if p = c then strip_prefix ps cs else None)"

fun py_in :: "string \<Rightarrow> string \<Rightarrow> bool" where
  "py_in needle [] = (needle = [])"
| "py_in needle (c # cs) = (strip_prefix needle (c # cs) \<noteq> None \<or> py_in needle cs)"

definition py_contains :: "string \<Rightarrow> json \<Rightarrow> exn + bool" where
  "py_contains needle v =
     (case v of
        JObj kvs \<Rightarrow> Inr (map_of kvs needle \<noteq> None)
      | JArr xs \<Rightarrow> Inr (JStr needle \<in> set xs)
      | JStr s \<Rightarrow> Inr (py_in needle s)
      | _ \<Rightarrow> Inl (Exn ''TypeError'' ''argument is not iterable''))"

text \<open>
  \<^verbatim>\<open>s.find(c)\<close> and \<^verbatim>\<open>s.rfind(c)\<close> for a character: the index of the first and of the
  last occurrence, or \<open>-1\<close>. \<^verbatim>\<open>s[a:b]\<close> is used with \<open>0 \<le> a < b\<close> only.
\<close>

definition py_find :: "char \<Rightarrow> string \<Rightarrow> int" where
  "py_find c s = (if c \<in> set s then int (length (takeWhile (\<lambda>x. x \<noteq> c) s)) else - 1)"

definition py_rfind :: "char \<Rightarrow> string \<Rightarrow> int" where
  "py_rfind c s =
     (if c \<in> set s then int (length s) - 1 - int (length (takeWhile (\<lambda>x. x \<noteq> c) (rev s)))
      else - 1)"

definition py_slice :: "string \<Rightarrow> int \<Rightarrow> int \<Rightarrow> string" where
  "py_slice s a b = take (nat b - nat a) (drop (nat a) s)"

section \<open>ModelGateway: \<^verbatim>\<open>ChatGPTClient.generate_response\<close> (api/chatgpt.py)\<close>

text \<open>
  One HTTP round trip of \<^verbatim>\<open>_make_api_request\<close> for fixed messages and options is an
  oracle: given the model identity and the state of the outside world it answers with a
  response or an exception and a new world. The gateway state also records, in order, the
  model identities for which a request was sent.
\<close>

type_synonym ('w, 'r) api = "string \<Rightarrow> 'w \<Rightarrow> (exn + 'r) \<times> 'w"

record 'w gateway_state =
  attempted :: "string list"
  world :: 'w

text \<open>\<^verbatim>\<open>settings.default_model\<close> as config.py declares it.\<close>

definition settings_default_model :: string where
  "settings_default_model = ''gpt-3.5-turbo''"

text \<open>
  \<^verbatim>\<open>_make_api_request(self, messages, model, **kwargs)\<close> is always called as
  \<^verbatim>\<open>self._make_api_request(messages, model, **kwargs)\<close>. When the caller of
  \<^verbatim>\<open>generate_response\<close> passed a \<^verbatim>\<open>model=\<close> keyword, \<^verbatim>\<open>kwargs\<close> still holds it and Python
  rejects the call (two values for the parameter \<^verbatim>\<open>model\<close>) before any request is sent.
  Every exception raised inside the request is re-raised by \<^verbatim>\<open>_make_api_request\<close>.
\<close>

definition make_api_request ::
  "('w, 'r) api \<Rightarrow> string option \<Rightarrow> string \<Rightarrow> 'w gateway_state \<Rightarrow> (exn + 'r) \<times> 'w gateway_state"
where
  "make_api_request api kw_model model s =
     (case kw_model of
        Some _ \<Rightarrow>
          (Inl (Exn ''TypeError'' ''got multiple values for argument model''), s)
      | None \<Rightarrow>
          (case api model (world s) of
             (r, w') \<Rightarrow> (r, \<lparr>attempted = attempted s @ [model], world = w'\<rparr>)))"

text \<open>
  Lines 67--72: the last \<^verbatim>\<open>try\<close>, against the generic model; when it fails too, the
  exception \<^verbatim>\<open>e\<close> of the first attempt is raised.
\<close>

definition final_fallback ::
  "('w, 'r) api \<Rightarrow> string option \<Rightarrow> exn \<Rightarrow> 'w gateway_state \<Rightarrow> (exn + 'r) \<times> 'w gateway_state"
where
  "final_fallback api kw_model e s =
     (case make_api_request api kw_model ''gpt-3.5-turbo'' s of
        (Inr r, s') \<Rightarrow> (Inr r, s')
      | (Inl final_e, s') \<Rightarrow> (Inl e, s'))"

definition generate_response ::
  "('w, 'r) api \<Rightarrow> string \<Rightarrow> string option \<Rightarrow> 'w gateway_state \<Rightarrow> (exn + 'r) \<times> 'w gateway_state"
where
  "generate_response api default_model kw_model s0 =
     (let model = (case kw_model of Some m \<Rightarrow> m | None \<Rightarrow> default_model) in
      case make_api_request api kw_model model s0 of
        (Inr r, s1) \<Rightarrow> (Inr r, s1)
      | (Inl e, s1) \<Rightarrow>
          (let fallback_model = ''gpt-3.5-turbo-0125'' in
           if model \<noteq> fallback_model then
             (case make_api_request api kw_model fallback_model s1 of
                (Inr r, s2) \<Rightarrow> (Inr r, s2)
              | (Inl fallback_e, s2) \<Rightarrow> final_fallback api kw_model e s2)
           else final_fallback api kw_model e s1))"

text \<open>Two oracles used to run the gateway: every request times out; the first two
  requests time out and the third is answered.\<close>

definition always_timeout :: "(unit, string) api" where
  "always_timeout model w = (Inl (Exn ''TimeoutException'' ''timed out''), w)"

definition third_time_lucky :: "(nat, string) api" where
  "third_time_lucky model n =
     (if n < 2 then Inl (Exn ''TimeoutException'' (''timed out: '' @ model))
      else Inr (''answer of '' @ model), Suc n)"

definition all_fail_numbered :: "(nat, string) api" where
  "all_fail_numbered model n =
     (Inl (Exn ''TimeoutException'' (''timed out: '' @ model)), Suc n)"

section \<open>LinkExtractor: \<^verbatim>\<open>LinkProcessor\<close> (link_processor.py)\<close>

subsection \<open>The scanning loops of \<^verbatim>\<open>re.findall\<close>, \<^verbatim>\<open>re.sub\<close> and \<^verbatim>\<open>re.search\<close>\<close>

text \<open>
  A pattern is a function that tries to match at the start of a text and returns the
  captured groups and the text after the match. The scan goes left to right: where the
  pattern matches, the groups are emitted and the scan goes on after the match; where it
  does not, the scan moves on by one character. After a match that consumed nothing the
  scan moves on by one character as well, as Python does; none of the patterns below
  matches the empty text.
\<close>

fun re_findall :: "(string \<Rightarrow> ('g \<times> string) option) \<Rightarrow> string \<Rightarrow> 'g list" where
  "re_findall m [] = []"
| "re_findall m (c # cs) =
     (case m (c # cs) of
        None \<Rightarrow> re_findall m cs
      | Some (g, rest) \<Rightarrow>
          if length rest < Suc (length cs) then g # re_findall m rest
          else g # re_findall m cs)"


fun re_search :: "(string \<Rightarrow> ('g \<times> string) option) \<Rightarrow> string \<Rightarrow> 'g option" where
  "re_search m [] = None"
| "re_search m (c # cs) =
     (case m (c # cs) of
        None \<Rightarrow> re_search m cs
      | Some (g, rest) \<Rightarrow> Some g)"

subsection \<open>The four patterns\<close>

text \<open>
  \<^verbatim>\<open>(.*?)\<close> followed by a literal character: the shortest run of characters other than
  newline up to the first occurrence of that character. Backtracking to a later
  occurrence cannot help the patterns below, because what has to follow is looked for in
  a suffix of the same line.
\<close>

fun lazy_until :: "char \<Rightarrow> string \<Rightarrow> (string \<times> string) option" where
  "lazy_until stop [] = None"
| "lazy_until stop (c # cs) =
     (if c = stop then Some ([], cs)
      else if c = CHR 0x0A then None
      else (case lazy_until stop cs of
              None \<Rightarrow> None
            | Some (g, rest) \<Rightarrow> Some (c # g, rest)))"

text \<open>\<^verbatim>\<open><link:(.*?)\|(.*?)>\<close>: the groups are the URL and the display text.\<close>

definition specific_link_pattern :: "string \<Rightarrow> ((string \<times> string) \<times> string) option" where
  "specific_link_pattern s =
     (case strip_prefix ''<link:'' s of
        None \<Rightarrow> None
      | Some s1 \<Rightarrow>
          (case lazy_until (CHR ''|'') s1 of
             None \<Rightarrow> None
           | Some (url, s2) \<Rightarrow>
               (case lazy_until (CHR ''>'') s2 of
                  None \<Rightarrow> None
                | Some (display_text, rest) \<Rightarrow> Some ((url, display_text), rest))))"

text \<open>\<^verbatim>\<open><Links to ([^>]+)>\<close>: the purpose is the longest run of characters other than
  \<^verbatim>\<open>>\<close>, not empty, and a \<^verbatim>\<open>>\<close> follows it.\<close>

definition generic_link_pattern :: "string \<Rightarrow> (string \<times> string) option" where
  "generic_link_pattern s =
     (case strip_prefix ''<Links to '' s of
        None \<Rightarrow> None
      | Some s1 \<Rightarrow>
          (let purpose = takeWhile (\<lambda>c. c \<noteq> CHR ''>'') s1;
               s2 = dropWhile (\<lambda>c. c \<noteq> CHR ''>'') s1
           in if purpose = [] \<or> s2 = [] then None else Some (purpose, tl s2)))"

text \<open>\<^verbatim>\<open>in ([A-Za-z\s]+)[\.\,]\<close>: the longest run of letters and white space, not empty,
  followed by a full stop or a comma.\<close>

definition location_pattern :: "string \<Rightarrow> (string \<times> string) option" where
  "location_pattern s =
     (case strip_prefix ''in '' s of
        None \<Rightarrow> None
      | Some s1 \<Rightarrow>
          (let in_class = (\<lambda>c. is_upper c \<or> is_lower c \<or> is_space c);
               location = takeWhile in_class s1;
               s2 = dropWhile in_class s1
           in if location = [] then None
              else (case s2 of
                      [] \<Rightarrow> None
                    | c # rest \<Rightarrow>
                        if c = CHR ''.'' \<or> c = CHR '','' then Some (location, rest) else None)))"

text \<open>
  \<^verbatim>\<open>(?:[A-Z][a-z]+\s*)+\<close>, greedy: the longest sequence of capitalised words, each with
  the white space after it. The result is the text consumed, the white space after the
  last word, and the rest.
\<close>

function capitalized_words :: "string \<Rightarrow> string \<times> string \<times> string" where
  "capitalized_words s =
     (case s of
        c1 # c2 # cs \<Rightarrow>
          if is_upper c1 \<and> is_lower c2 then
            (let s1 = dropWhile is_lower (c2 # cs);
                 word = c1 # takeWhile is_lower (c2 # cs);
                 spaces = takeWhile is_space s1;
                 s2 = dropWhile is_space s1
             in (case capitalized_words s2 of
                   (more_words, last_spaces, rest) \<Rightarrow>
                     (word @ spaces @ more_words,
                      if more_words = [] then spaces else last_spaces, rest)))
          else ([], [], s)
      | _ \<Rightarrow> ([], [], s))"
  by pat_completeness auto
termination
proof (relation "measure length", goal_cases)
  case 1
  show ?case by simp
next
  case (2 s c1 list c2 cs s1 word spaces s2)
  have "length s2 \<le> length s1"
    using 2 by (simp add: length_dropWhile_le)
  moreover have "length s1 \<le> length (c2 # cs)"
    using 2 by (simp only: length_dropWhile_le)
  ultimately show ?case using 2 by simp
qed

text \<open>
  \<^verbatim>\<open>((?:[A-Z][a-z]+\s*)+)(?:\(|\,|\s+and\s+|\.|\s+is)\<close>. After the greedy run of words the
  next character is neither white space nor the start of a capitalised word, so the
  alternatives \<^verbatim>\<open>(\<close>, \<^verbatim>\<open>,\<close> and \<^verbatim>\<open>.\<close> are tried there; \<^verbatim>\<open>\s+and\s+\<close> and \<^verbatim>\<open>\s+is\<close> can
  match only after the last \<^verbatim>\<open>\s*\<close> has given one white space character back, which
  leaves it out of the group. Giving back more, a letter or a whole word puts white
  space, a lower-case letter or a capital in front of the alternatives, and none of them
  starts so.
\<close>

definition place_pattern :: "string \<Rightarrow> (string \<times> string) option" where
  "place_pattern s =
     (case capitalized_words s of
        (words, last_spaces, rest) \<Rightarrow>
          if words = [] then None
          else (case rest of
                  [] \<Rightarrow> None
                | c # after \<Rightarrow>
                    if c = CHR ''('' \<or> c = CHR '','' then Some (words, after)
                    else if last_spaces \<noteq> [] \<and> strip_prefix ''and'' rest \<noteq> None
                            \<and> takeWhile is_space (drop 3 rest) \<noteq> []
                      then Some (butlast words, dropWhile is_space (drop 3 rest))
                    else if c = CHR ''.'' then Some (words, after)
                    else if last_spaces \<noteq> [] \<and> strip_prefix ''is'' rest \<noteq> None
                      then Some (butlast words, drop 2 rest)
                    else None))"

subsection \<open>\<^verbatim>\<open>extract_links\<close>, \<^verbatim>\<open>_generate_placeholder_url\<close>, \<^verbatim>\<open>format_response_with_links\<close>\<close>

text \<open>A link is the dictionary \<^verbatim>\<open>{"url": ..., "text": ..., "type": ...}\<close>.\<close>

record link =
  link_url :: string
  link_text :: string
  link_type :: string

definition generate_placeholder_url :: "string \<Rightarrow> string" where
  "generate_placeholder_url purpose =
     (let purpose_lower = py_strip (py_lower purpose) in
      if py_in ''flight'' purpose_lower then ''https://www.skyscanner.com/''
      else if py_in ''hotel'' purpose_lower then ''https://www.booking.com/''
      else if py_in ''restaurant'' purpose_lower \<or> py_in ''dining'' purpose_lower
              \<or> py_in ''reservation'' purpose_lower
        then ''https://www.opentable.com/''
      else if py_in ''attraction'' purpose_lower \<or> py_in ''place'' purpose_lower
              \<or> py_in ''these places'' purpose_lower
        then ''https://www.tripadvisor.com/''
      else if py_in ''transport'' purpose_lower then ''https://www.rome2rio.com/''
      else ''https://www.google.com/travel'')"

text \<open>
  The body of the \<^verbatim>\<open>try\<close> for a \<^verbatim>\<open>str\<close> argument (lines 32--84). \<^verbatim>\<open>links\<close> and \<^verbatim>\<open>places\<close>
  are the lists the loops append to; a \<^verbatim>\<open>for\<close> loop with an \<^verbatim>\<open>append\<close> is a \<open>fold\<close>.
\<close>

definition extract_links_str :: "string \<Rightarrow> link list" where
  "extract_links_str text =
     (let links = [];
          generic_matches = re_findall generic_link_pattern text;
          links = fold (\<lambda>purpose links. links @
                    [\<lparr>link_url = generate_placeholder_url purpose,
                      link_text = ''Find '' @ purpose,
                      link_type = ''general''\<rparr>]) generic_matches links;
          specific_matches = re_findall specific_link_pattern text;
          links = fold (\<lambda>(url, display_text) links. links @
                    [\<lparr>link_url = url, link_text = display_text,
                      link_type = ''specific''\<rparr>]) specific_matches links
      in if py_in ''places to visit'' (py_lower text) \<or> py_in ''attractions'' (py_lower text)
         then
           (let location = (case re_search location_pattern text of
                              Some l \<Rightarrow> l | None \<Rightarrow> ''the area'');
                places = [];
                place_matches = re_findall place_pattern text;
                places = fold (\<lambda>place places.
                           (let place = py_strip place in
                            if length place > 3
                               \<and> place \<notin> set [''New York'', ''United States'', ''America'']
                            then places @ [place] else places)) place_matches places;
                links = fold (\<lambda>place links. links @
                          [\<lparr>link_url = ''https://www.google.com/search?q='' @ place @ ''+'' @ location,
                            link_text = ''Learn about '' @ place,
                            link_type = ''attraction''\<rparr>]) (take 3 places) links
            in links @
                 [\<lparr>link_url = ''https://www.google.com/search?q=things+to+do+in+''
                               @ py_replace_char (CHR '' '') (CHR ''+'') location,
                   link_text = ''Explore '' @ location,
                   link_type = ''general''\<rparr>])
         else links)"

text \<open>
  The argument is whatever the caller passes. For a \<^verbatim>\<open>str\<close> nothing in the body raises;
  for anything else the first \<^verbatim>\<open>re.findall\<close> raises \<^verbatim>\<open>TypeError\<close>. The handler
  \<^verbatim>\<open>except Exception\<close> returns the empty list.
\<close>

definition extract_links_try :: "json \<Rightarrow> exn + link list" where
  "extract_links_try text =
     (case text of
        JStr s \<Rightarrow> Inr (extract_links_str s)
      | _ \<Rightarrow> Inl (Exn ''TypeError'' ''expected string or bytes-like object''))"

definition extract_links :: "json \<Rightarrow> link list" where
  "extract_links text =
     (case extract_links_try text of Inr links \<Rightarrow> links | Inl e \<Rightarrow> [])"


subsection \<open>The three kinds of links, as the specification lists them\<close>

definition generic_marker_links :: "string \<Rightarrow> link list" where
  "generic_marker_links text =
     map (\<lambda>purpose. \<lparr>link_url = generate_placeholder_url purpose,
                     link_text = ''Find '' @ purpose, link_type = ''general''\<rparr>)
       (re_findall generic_link_pattern text)"

definition specific_marker_links :: "string \<Rightarrow> link list" where
  "specific_marker_links text =
     map (\<lambda>(url, display_text). \<lparr>link_url = url, link_text = display_text,
                                  link_type = ''specific''\<rparr>)
       (re_findall specific_link_pattern text)"

definition heuristic_place_links :: "string \<Rightarrow> link list" where
  "heuristic_place_links text =
     (if py_in ''places to visit'' (py_lower text) \<or> py_in ''attractions'' (py_lower text)
      then
        (let location = (case re_search location_pattern text of
                           Some l \<Rightarrow> l | None \<Rightarrow> ''the area'');
             places = filter (\<lambda>place. length place > 3
                         \<and> place \<notin> set [''New York'', ''United States'', ''America''])
                        (map py_strip (re_findall place_pattern text))
         in map (\<lambda>place.
                   \<lparr>link_url = ''https://www.google.com/search?q='' @ place @ ''+'' @ location,
                     link_text = ''Learn about '' @ place,
                     link_type = ''attraction''\<rparr>) (take 3 places)
            @ [\<lparr>link_url = ''https://www.google.com/search?q=things+to+do+in+''
                            @ py_replace_char (CHR '' '') (CHR ''+'') location,
                link_text = ''Explore '' @ location,
                link_type = ''general''\<rparr>])
      else [])"


section \<open>IntentDispatcher: \<^verbatim>\<open>TravelHandler\<close> (travel_handler.py)\<close>

subsection \<open>Dates\<close>

text \<open>
  \<^verbatim>\<open>datetime.date\<close> and \<^verbatim>\<open>datetime.datetime\<close> (to the second, without time zone).
  \<open>plus_one_day\<close> is \<^verbatim>\<open>d + timedelta(days=1)\<close>, which raises \<^verbatim>\<open>OverflowError\<close> on
  \<^verbatim>\<open>date.max\<close>; \<open>combine_noon\<close> is
  \<^verbatim>\<open>datetime.combine(d, datetime.min.time().replace(hour=12))\<close>.
\<close>

record date =
  d_year :: nat
  d_month :: nat
  d_day :: nat

record datetime =
  dt_date :: date
  dt_hour :: nat
  dt_minute :: nat
  dt_second :: nat

definition is_leap :: "nat \<Rightarrow> bool" where
  "is_leap y = (y mod 4 = 0 \<and> (y mod 100 \<noteq> 0 \<or> y mod 400 = 0))"

definition days_in_month :: "nat \<Rightarrow> nat \<Rightarrow> nat" where
  "days_in_month y m =
     (if m = 2 then (if is_leap y then 29 else 28)
      else if m \<in> {4, 6, 9, 11} then 30 else 31)"

definition date_max :: date where
  "date_max = \<lparr>d_year = 9999, d_month = 12, d_day = 31\<rparr>"

definition plus_one_day :: "date \<Rightarrow> exn + date" where
  "plus_one_day d =
     (if d = date_max then Inl (Exn ''OverflowError'' ''date value out of range'')
      else if d_day d < days_in_month (d_year d) (d_month d) then Inr (d\<lparr>d_day := d_day d + 1\<rparr>)
      else if d_month d < 12 then Inr (d\<lparr>d_month := d_month d + 1, d_day := 1\<rparr>)
      else Inr \<lparr>d_year = d_year d + 1, d_month = 1, d_day = 1\<rparr>)"

definition combine_noon :: "date \<Rightarrow> datetime" where
  "combine_noon d = \<lparr>dt_date = d, dt_hour = 12, dt_minute = 0, dt_second = 0\<rparr>"

subsection \<open>Requests, envelopes and the environment of a dispatch\<close>

text \<open>\<^verbatim>\<open>TransportMode\<close> (models/transport.py) and \<^verbatim>\<open>getattr(TransportMode, name)\<close>:
  the class has no other attribute whose name is in upper case.\<close>

datatype transport_mode = TRAIN | BUS | FLIGHT | CAR | FERRY | SUBWAY | WALK

definition transport_mode_attr :: "string \<Rightarrow> transport_mode option" where
  "transport_mode_attr name =
     map_of [(''TRAIN'', TRAIN), (''BUS'', BUS), (''FLIGHT'', FLIGHT), (''CAR'', CAR),
             (''FERRY'', FERRY), (''SUBWAY'', SUBWAY), (''WALK'', WALK)] name"

text \<open>The keyword arguments the handlers give to the three request models.\<close>

record flight_args =
  f_origin :: json
  f_destination :: json
  f_departure_date :: date
  f_return_date :: "date option"
  f_adults :: json
  f_children :: json
  f_infants :: json
  f_cabin_class :: json
  f_direct_flights_only :: json

record restaurant_args =
  r_location :: json
  r_radius_km :: json
  r_cuisines :: json
  r_price_range :: json
  r_open_now :: json

record transport_args =
  t_origin :: json
  t_destination :: json
  t_departure_date :: datetime
  t_modes :: "transport_mode list option"
  t_adults :: json
  t_children :: json

datatype request =
    FlightSearchReqeust flight_args
  | RestaurantSearchRequest restaurant_args
  | TransportSearchRequest transport_args

text \<open>
  An envelope is the dictionary a handler returns: its keys in order, each with \<^verbatim>\<open>None\<close>,
  a string or the provider's response.
\<close>

datatype 'r pyval = PNone | PStr string | PData 'r

type_synonym 'r envelope = "(string \<times> 'r pyval) list"

text \<open>
  What a dispatch reads from outside the repository's code: the clock, the two parsers
  of the standard library (\<open>None\<close> is \<^verbatim>\<open>ValueError\<close>), the validation pydantic runs when
  a request model is constructed (\<open>Some e\<close> is the \<^verbatim>\<open>ValidationError\<close>), and the
  provider's search for a request. A dispatch calls a provider at most once, so a
  function of the request covers every behaviour of the provider. The statically chosen
  clients (Skyscanner, Yelp, Rome2Rio) are told apart by the request's constructor.
\<close>

record 'r env =
  today :: date
  date_fromisoformat :: "string \<Rightarrow> date option"
  datetime_fromisoformat :: "string \<Rightarrow> datetime option"
  validate :: "request \<Rightarrow> exn option"
  search :: "request \<Rightarrow> exn + 'r"

subsection \<open>\<^verbatim>\<open>_parse_date\<close> and \<^verbatim>\<open>_parse_datetime\<close>\<close>

text \<open>
  Both return, next to the parsed value, the calls they made to the standard library's
  parsers, in order. An argument that is not a string makes \<^verbatim>\<open>fromisoformat\<close> raise
  \<^verbatim>\<open>TypeError\<close>, which both functions catch like \<^verbatim>\<open>ValueError\<close>.
\<close>

datatype stdlib_parse = DateFromIso | DatetimeFromIso

definition parse_date :: "('r, 'x) env_scheme \<Rightarrow> json \<Rightarrow> stdlib_parse list \<times> date option" where
  "parse_date env date_str =
     (if \<not> truthy date_str then ([], None)
      else (case date_str of
              JStr s \<Rightarrow> ([DateFromIso], date_fromisoformat env s)
            | _ \<Rightarrow> ([DateFromIso], None)))"

definition parse_datetime ::
  "('r, 'x) env_scheme \<Rightarrow> json \<Rightarrow> stdlib_parse list \<times> datetime option" where
  "parse_datetime env datetime_str =
     (if \<not> truthy datetime_str then ([], None)
      else (case (case datetime_str of JStr s \<Rightarrow> datetime_fromisoformat env s | _ \<Rightarrow> None) of
              Some dt \<Rightarrow> ([DatetimeFromIso], Some dt)
            | None \<Rightarrow>
                (case parse_date env datetime_str of
                   (calls, Some parsed_date) \<Rightarrow>
                     (DatetimeFromIso # calls, Some (combine_noon parsed_date))
                 | (calls, None) \<Rightarrow> (DatetimeFromIso # calls, None))))"

subsection \<open>The handlers\<close>

text \<open>
  A handler returns what it returned or raised, and the provider searches it called.
  Lines 85--90 and 152--157: the departure date, with its default.
\<close>

definition flight_departure_date :: "('r, 'x) env_scheme \<Rightarrow> entities \<Rightarrow> exn + date" where
  "flight_departure_date env entities =
     (case snd (parse_date env (dict_get entities ''departure_date'')) of
        Some departure_date \<Rightarrow> Inr departure_date
      | None \<Rightarrow> plus_one_day (today env))"

definition transport_departure_date ::
  "('r, 'x) env_scheme \<Rightarrow> entities \<Rightarrow> exn + datetime" where
  "transport_departure_date env entities =
     (case snd (parse_datetime env (dict_get entities ''departure_date'')) of
        Some departure_date \<Rightarrow> Inr departure_date
      | None \<Rightarrow>
          (case plus_one_day (today env) of
             Inl e \<Rightarrow> Inl e
           | Inr tomorrow \<Rightarrow> Inr (combine_noon tomorrow)))"

definition flight_request :: "('r, 'x) env_scheme \<Rightarrow> entities \<Rightarrow> exn + request" where
  "flight_request env entities =
     (case flight_departure_date env entities of
        Inl e \<Rightarrow> Inl e
      | Inr departure_date \<Rightarrow>
          (let request = FlightSearchReqeust
                 \<lparr>f_origin = dict_get entities ''origin'',
                  f_destination = dict_get entities ''destination'',
                  f_departure_date = departure_date,
                  f_return_date = snd (parse_date env (dict_get entities ''return_date'')),
                  f_adults = dict_get_default entities ''adults'' (JNum 1),
                  f_children = dict_get_default entities ''children'' (JNum 0),
                  f_infants = dict_get_default entities ''infants'' (JNum 0),
                  f_cabin_class = dict_get_default entities ''cabin_class'' (JStr ''economy''),
                  f_direct_flights_only =
                    dict_get_default entities ''direct_flights_only'' (JBool False)\<rparr>
           in case validate env request of Some e \<Rightarrow> Inl e | None \<Rightarrow> Inr request))"

definition handle_flight_search ::
  "('r, 'x) env_scheme \<Rightarrow> entities \<Rightarrow> (exn + 'r envelope) \<times> request list" where
  "handle_flight_search env entities =
     (let origin = dict_get entities ''origin'';
          destination = dict_get entities ''destination''
      in if \<not> truthy origin \<or> \<not> truthy destination then
           (Inr [(''type'', PStr ''flight''), (''data'', PNone),
                 (''message'', PStr ''Missing origin or destination for flight search'')], [])
         else
           (case flight_request env entities of
              Inl e \<Rightarrow> (Inl e, [])
            | Inr request \<Rightarrow>
                (case search env request of
                   Inl e \<Rightarrow> (Inl e, [request])
                 | Inr response \<Rightarrow>
                     (Inr [(''type'', PStr ''flight''), (''data'', PData response),
                           (''message'', PStr ''Flight options retrieved successfully'')],
                      [request]))))"

definition restaurant_request :: "('r, 'x) env_scheme \<Rightarrow> entities \<Rightarrow> exn + request" where
  "restaurant_request env entities =
     (let request = RestaurantSearchRequest
            \<lparr>r_location = dict_get entities ''location'',
             r_radius_km = dict_get_default entities ''radius_km'' (JNum 5),
             r_cuisines = dict_get entities ''cuisines'',
             r_price_range = dict_get entities ''price_range'',
             r_open_now = dict_get entities ''open_now''\<rparr>
      in case validate env request of Some e \<Rightarrow> Inl e | None \<Rightarrow> Inr request)"

definition handle_restaurant_search ::
  "('r, 'x) env_scheme \<Rightarrow> entities \<Rightarrow> (exn + 'r envelope) \<times> request list" where
  "handle_restaurant_search env entities =
     (let location = dict_get entities ''location''
      in if \<not> truthy location then
           (Inr [(''type'', PStr ''restaurant''), (''data'', PNone),
                 (''message'', PStr ''Missing location for restaurant search'')], [])
         else
           (case restaurant_request env entities of
              Inl e \<Rightarrow> (Inl e, [])
            | Inr request \<Rightarrow>
                (case search env request of
                   Inl e \<Rightarrow> (Inl e, [request])
                 | Inr response \<Rightarrow>
                     (Inr [(''type'', PStr ''restaurant''), (''data'', PData response),
                           (''message'', PStr ''Restaurant options retrieved successfully'')],
                      [request]))))"

text \<open>
  Lines 160--165. A mode whose upper-case name is no member of \<^verbatim>\<open>TransportMode\<close> is
  skipped; an element that is not a string has no \<^verbatim>\<open>upper\<close> and raises
  \<^verbatim>\<open>AttributeError\<close> with the text \<^verbatim>\<open>'int' object has no attribute 'upper'\<close> (with the
  name of the element's type).
\<close>

fun collect_modes :: "json list \<Rightarrow> transport_mode list \<Rightarrow> exn + transport_mode list" where
  "collect_modes [] modes = Inr modes"
| "collect_modes (JStr mode # rest) modes =
     (case transport_mode_attr (py_upper mode) of
        Some m \<Rightarrow> collect_modes rest (modes @ [m])
      | None \<Rightarrow> collect_modes rest modes)"
| "collect_modes (v # rest) modes =
     Inl (Exn ''AttributeError''
            (quoted (py_type_name v) @ '' object has no attribute '' @ quoted ''upper''))"

definition parse_transport_modes :: "entities \<Rightarrow> exn + transport_mode list option" where
  "parse_transport_modes entities =
     (case map_of entities ''transport_modes'' of
        None \<Rightarrow> Inr None
      | Some v \<Rightarrow>
          (case iterate v of
             Inl e \<Rightarrow> Inl e
           | Inr items \<Rightarrow>
               (case collect_modes items [] of
                  Inl e \<Rightarrow> Inl e
                | Inr modes \<Rightarrow> Inr (Some modes))))"

definition transport_request :: "('r, 'x) env_scheme \<Rightarrow> entities \<Rightarrow> exn + request" where
  "transport_request env entities =
     (case transport_departure_date env entities of
        Inl e \<Rightarrow> Inl e
      | Inr departure_date \<Rightarrow>
          (case parse_transport_modes entities of
             Inl e \<Rightarrow> Inl e
           | Inr modes \<Rightarrow>
               (let request = TransportSearchRequest
                      \<lparr>t_origin = dict_get entities ''origin'',
                       t_destination = dict_get entities ''destination'',
                       t_departure_date = departure_date,
                       t_modes = modes,
                       t_adults = dict_get_default entities ''adults'' (JNum 1),
                       t_children = dict_get_default entities ''children'' (JNum 0)\<rparr>
                in case validate env request of Some e \<Rightarrow> Inl e | None \<Rightarrow> Inr request)))"

definition handle_transport_search ::
  "('r, 'x) env_scheme \<Rightarrow> entities \<Rightarrow> (exn + 'r envelope) \<times> request list" where
  "handle_transport_search env entities =
     (let origin = dict_get entities ''origin'';
          destination = dict_get entities ''destination''
      in if \<not> truthy origin \<or> \<not> truthy destination then
           (Inr [(''type'', PStr ''transport''), (''data'', PNone),
                 (''message'', PStr ''Missing origin or destination for transport search'')], [])
         else
           (case transport_request env entities of
              Inl e \<Rightarrow> (Inl e, [])
            | Inr request \<Rightarrow>
                (case search env request of
                   Inl e \<Rightarrow> (Inl e, [request])
                 | Inr response \<Rightarrow>
                     (Inr [(''type'', PStr ''transport''), (''data'', PData response),
                           (''message'', PStr ''Transport options retrieved successfully'')],
                      [request]))))"

definition handle_hotel_search :: "entities \<Rightarrow> (exn + 'r envelope) \<times> request list" where
  "handle_hotel_search entities =
     (Inr [(''type'', PStr ''hotel''), (''data'', PNone),
           (''message'', PStr ''Hotel search functionality coming soon'')], [])"

definition handle_attraction_search :: "entities \<Rightarrow> (exn + 'r envelope) \<times> request list" where
  "handle_attraction_search entities =
     (Inr [(''type'', PStr ''attraction''), (''data'', PNone),
           (''message'', PStr ''Attraction search functionality coming soon'')], [])"

definition handle_seasonal_advice :: "entities \<Rightarrow> (exn + 'r envelope) \<times> request list" where
  "handle_seasonal_advice entities =
     (Inr [(''type'', PStr ''seasonal_advice''), (''data'', PNone),
           (''message'', PStr ''Seasonal advice functionality coming soon'')], [])"

text \<open>
  \<^verbatim>\<open>process_travel_intent\<close>: the chain of comparisons on the intent inside \<^verbatim>\<open>try\<close>
  (lines 56--70), and the handler \<^verbatim>\<open>except Exception as e\<close>, which returns
  \<^verbatim>\<open>{"type": "error", "message": str(e)}\<close>. The result is a sum so that raising to the
  caller can be stated.
\<close>

definition process_travel_intent_try ::
  "('r, 'x) env_scheme \<Rightarrow> json \<Rightarrow> entities \<Rightarrow> (exn + 'r envelope) \<times> request list" where
  "process_travel_intent_try env intent entities =
     (if intent = JStr ''flight'' then handle_flight_search env entities
      else if intent = JStr ''hotel'' then handle_hotel_search entities
      else if intent = JStr ''restaurant'' then handle_restaurant_search env entities
      else if intent = JStr ''attraction'' then handle_attraction_search entities
      else if intent = JStr ''transport'' then handle_transport_search env entities
      else if intent = JStr ''seasonal_advice'' then handle_seasonal_advice entities
      else (Inr [(''type'', PStr ''general''), (''data'', PNone)], []))"

definition process_travel_intent ::
  "('r, 'x) env_scheme \<Rightarrow> json \<Rightarrow> entities \<Rightarrow> (exn + 'r envelope) \<times> request list" where
  "process_travel_intent env intent entities =
     (case process_travel_intent_try env intent entities of
        (Inr envelope, calls) \<Rightarrow> (Inr envelope, calls)
      | (Inl e, calls) \<Rightarrow>
          (Inr [(''type'', PStr ''error''), (''message'', PStr (exn_str e))], calls))"

text \<open>The intents with a branch of their own, the fixed texts that go with provider
  data, and the fixed texts that explain an envelope without data.\<close>

definition known_intents :: "json set" where
  "known_intents = JStr ` {''flight'', ''hotel'', ''restaurant'', ''attraction'',
     ''transport'', ''seasonal_advice''}"

definition success_messages :: "string set" where
  "success_messages =
     {''Flight options retrieved successfully'',
      ''Restaurant options retrieved successfully'',
      ''Transport options retrieved successfully''}"

definition explanatory_messages :: "string set" where
  "explanatory_messages =
     {''Missing origin or destination for flight search'',
      ''Missing location for restaurant search'',
      ''Missing origin or destination for transport search'',
      ''Hotel search functionality coming soon'',
      ''Attraction search functionality coming soon'',
      ''Seasonal advice functionality coming soon''}"

section \<open>EntityExtractor and ConversationOrchestrator\<close>

text \<open>
  A turn of the conversation history and the user context (models/user.py). The profile
  fields are carried along unread.
\<close>

record chat_message =
  msg_role :: string
  msg_content :: json

record user_context =
  user_id :: string
  location :: "json option"
  preferences :: "json option"
  conversation_history :: "chat_message list"
  last_interaction :: "nat option"

text \<open>
  What a turn reads from outside, besides what a dispatch reads: the clock
  (\<^verbatim>\<open>datetime.now()\<close>), the configured API key, the outcome of
  \<^verbatim>\<open>ChatGPTClient.generate_response\<close> for a list of messages (the fallback chain of the
  gateway is modelled on its own above; the two calls of a turn differ in their first
  message, so a function of the messages covers every behaviour of the model),
  \<^verbatim>\<open>json.loads\<close> on a text that starts with a brace (a dictionary, or the exception it
  raises) and \<^verbatim>\<open>json.dumps\<close> of an envelope.
\<close>

record 'r conv_env = "'r env" +
  now :: nat
  openai_api_key :: string
  chat :: "chat_message list \<Rightarrow> exn + json"
  json_loads :: "string \<Rightarrow> exn + entities"
  json_dumps :: "'r envelope \<Rightarrow> string"

subsection \<open>\<^verbatim>\<open>extract_entities\<close> (utils/context.py)\<close>

text \<open>\<^verbatim>\<open>response["choices"][0]["message"]["content"]\<close>.\<close>

definition response_content :: "json \<Rightarrow> exn + json" where
  "response_content response =
     (case py_getitem_key response ''choices'' of
        Inl e \<Rightarrow> Inl e
      | Inr choices \<Rightarrow>
          (case py_getitem_0 choices of
             Inl e \<Rightarrow> Inl e
           | Inr choice \<Rightarrow>
               (case py_getitem_key choice ''message'' of
                  Inl e \<Rightarrow> Inl e
                | Inr msg \<Rightarrow> py_getitem_key msg ''content'')))"

definition general_entities :: entities where
  "general_entities = [(''intent'', JStr ''general'')]"

text \<open>The system prompt is a fixed text (abridged here: nothing below reads it).\<close>

definition extraction_system_prompt :: chat_message where
  "extraction_system_prompt =
     \<lparr>msg_role = ''system'',
      msg_content = JStr ''You are an expert travel entity extraction system. [...]''\<rparr>"

definition extraction_messages :: "string \<Rightarrow> user_context \<Rightarrow> chat_message list" where
  "extraction_messages message context =
     (let conversation_history =
            (if conversation_history context \<noteq> []
             then drop (length (conversation_history context) - 4) (conversation_history context)
             else [])
      in [extraction_system_prompt] @ conversation_history
           @ [\<lparr>msg_role = ''user'', msg_content = JStr message\<rparr>])"

text \<open>
  Lines 90--109: the logging slice \<^verbatim>\<open>content[:100]\<close> and \<^verbatim>\<open>content.find\<close> raise unless
  the content is a string; the inner \<^verbatim>\<open>try\<close> catches \<^verbatim>\<open>json.JSONDecodeError\<close> only and
  lets any other exception through to the outer handler.
\<close>

definition entities_from_content :: "'r conv_env \<Rightarrow> json \<Rightarrow> exn + entities" where
  "entities_from_content env content =
     (case content of
        JStr c \<Rightarrow>
          (let json_start = py_find (CHR ''{'') c;
               json_end = py_rfind (CHR ''}'') c + 1
           in if json_start \<ge> 0 \<and> json_end > json_start then
                (case json_loads env (py_slice c json_start json_end) of
                   Inr entities \<Rightarrow> Inr entities
                 | Inl e \<Rightarrow>
                     if exn_type e = ''JSONDecodeError'' then Inr general_entities else Inl e)
              else Inr general_entities)
      | JArr xs \<Rightarrow> Inl (Exn ''AttributeError'' ''list object has no attribute find'')
      | _ \<Rightarrow> Inl (Exn ''TypeError'' ''object is not subscriptable''))"

text \<open>
  The constructor \<^verbatim>\<open>ChatGPTClient()\<close> stands before the \<^verbatim>\<open>try\<close> and raises
  \<^verbatim>\<open>ValueError\<close> on an empty API key; everything after it is inside
  \<^verbatim>\<open>try ... except Exception\<close>, and \<^verbatim>\<open>close\<close> swallows its own exceptions.
\<close>

definition extract_entities :: "'r conv_env \<Rightarrow> string \<Rightarrow> user_context \<Rightarrow> exn + entities" where
  "extract_entities env message context =
     (if openai_api_key env = [] then
        Inl (Exn ''ValueError'' ''OpenAI API key is missing or empty'')
      else
        Inr (case chat env (extraction_messages message context) of
               Inl e \<Rightarrow> general_entities
             | Inr response \<Rightarrow>
                 (case response_content response of
                    Inl e \<Rightarrow> general_entities
                  | Inr content \<Rightarrow>
                      (case entities_from_content env content of
                         Inl e \<Rightarrow> general_entities
                       | Inr entities \<Rightarrow> entities))))"

subsection \<open>\<^verbatim>\<open>EnhancedConversationService\<close> (enhanced_conversation.py)\<close>

record reply =
  reply_text :: json
  reply_links :: "link list"
  reply_context :: user_context

definition persona_system_prompt :: chat_message where
  "persona_system_prompt =
     \<lparr>msg_role = ''system'',
      msg_content = JStr ''You are Jetzy, a knowledgeable and helpful travel assistant. [...]''\<rparr>"

definition content_message :: "'r conv_env \<Rightarrow> 'r envelope \<Rightarrow> string \<Rightarrow> chat_message" where
  "content_message env handler_response message =
     \<lparr>msg_role = ''system'',
      msg_content = JStr (''Here's the data retrieved for the user's query:'' @ [CHR 0x0A]
        @ json_dumps env handler_response @ [CHR 0x0A, CHR 0x0A]
        @ ''Please use this data to provide a helpful response to the user's query: ''
        @ [CHR 0x27] @ message @ [CHR 0x27])\<rparr>"

definition synthesis_messages ::
  "'r conv_env \<Rightarrow> string \<Rightarrow> 'r envelope \<Rightarrow> user_context \<Rightarrow> chat_message list" where
  "synthesis_messages env message handler_response context =
     (let history_limit = 10;
          history = drop (length (conversation_history context) - history_limit)
                      (conversation_history context)
      in [persona_system_prompt, content_message env handler_response message] @ history)"

text \<open>Line 152: \<^verbatim>\<open>"choices" in response and len(response["choices"]) > 0 and "message" in
  response["choices"][0]\<close>, evaluated left to right.\<close>

definition has_choice_message :: "json \<Rightarrow> exn + bool" where
  "has_choice_message response =
     (case py_contains ''choices'' response of
        Inl e \<Rightarrow> Inl e
      | Inr False \<Rightarrow> Inr False
      | Inr True \<Rightarrow>
          (case py_getitem_key response ''choices'' of
             Inl e \<Rightarrow> Inl e
           | Inr choices \<Rightarrow>
               (case py_len choices of
                  Inl e \<Rightarrow> Inl e
                | Inr n \<Rightarrow>
                    if \<not> n > 0 then Inr False
                    else (case py_getitem_0 choices of
                            Inl e \<Rightarrow> Inl e
                          | Inr choice \<Rightarrow> py_contains ''message'' choice))))"

text \<open>
  Lines 154--164: the logging slice \<^verbatim>\<open>content[:100]\<close> raises unless the content is a
  string or a list; \<^verbatim>\<open>+=\<close> on a list extends it by the characters of the marker.
\<close>

definition add_attraction_placeholder :: "entities \<Rightarrow> json \<Rightarrow> exn + json" where
  "add_attraction_placeholder entities content =
     (let intent = dict_get_default entities ''intent'' (JStr '''')
      in case content of
           JStr c \<Rightarrow>
             if intent = JStr ''attraction'' \<and> \<not> py_in ''<Links to these places>'' c
                \<and> \<not> py_in ''<Links to '' c
             then Inr (JStr (c @ '' <Links to these places>''))
             else Inr content
         | JArr xs \<Rightarrow>
             if intent = JStr ''attraction'' \<and> JStr ''<Links to these places>'' \<notin> set xs
                \<and> JStr ''<Links to '' \<notin> set xs
             then Inr (JArr (xs @ map (\<lambda>ch. JStr [ch]) '' <Links to these places>''))
             else Inr content
         | _ \<Rightarrow> Inl (Exn ''TypeError'' ''object is not subscriptable''))"

text \<open>\<^verbatim>\<open>_generate_response\<close>: the value of \<^verbatim>\<open>response_data["text"]\<close>, or the exception it
  re-raises.\<close>

definition generate_response_text ::
  "'r conv_env \<Rightarrow> string \<Rightarrow> entities \<Rightarrow> 'r envelope \<Rightarrow> user_context \<Rightarrow> exn + json" where
  "generate_response_text env message entities handler_response context =
     (case chat env (synthesis_messages env message handler_response context) of
        Inl e \<Rightarrow> Inl e
      | Inr response \<Rightarrow>
          (case has_choice_message response of
             Inl e \<Rightarrow> Inl e
           | Inr False \<Rightarrow> Inl (Exn ''ValueError'' ''Unexpected response format from OpenAI API'')
           | Inr True \<Rightarrow>
               (case response_content response of
                  Inl e \<Rightarrow> Inl e
                | Inr content \<Rightarrow> add_attraction_placeholder entities content)))"

definition apology :: "string \<Rightarrow> string" where
  "apology error_type =
     ''I'm having trouble processing your request. There was an error: '' @ error_type
       @ ''. Please try again in a moment, or let me know if I can help with something else.''"

text \<open>
  The body of the \<^verbatim>\<open>try\<close> of \<^verbatim>\<open>process_message\<close> (lines 40--71), run on the context
  that already holds the user turn. No envelope has a key \<^verbatim>\<open>links\<close>, so the links are
  always those extracted from the text.
\<close>

definition process_message_try :: "'r conv_env \<Rightarrow> string \<Rightarrow> user_context \<Rightarrow> exn + reply" where
  "process_message_try env message context =
     (case extract_entities env message context of
        Inl e \<Rightarrow> Inl e
      | Inr entities \<Rightarrow>
          (let intent = dict_get_default entities ''intent'' (JStr ''general'')
           in case fst (process_travel_intent env intent entities) of
                Inl e \<Rightarrow> Inl e
              | Inr handler_response \<Rightarrow>
                  (case generate_response_text env message entities handler_response context of
                     Inl e \<Rightarrow> Inl e
                   | Inr text \<Rightarrow>
                       Inr \<lparr>reply_text = text,
                            reply_links = extract_links text,
                            reply_context = context
                              \<lparr>conversation_history := conversation_history context
                                 @ [\<lparr>msg_role = ''assistant'', msg_content = text\<rparr>]\<rparr>\<rparr>)))"

definition process_message ::
  "'r conv_env \<Rightarrow> string \<Rightarrow> string \<Rightarrow> user_context option \<Rightarrow> reply" where
  "process_message env uid message context =
     (let context = (case context of
                       Some c \<Rightarrow> c
                     | None \<Rightarrow> \<lparr>user_id = uid, location = None, preferences = None,
                                 conversation_history = [], last_interaction = None\<rparr>);
          context = context
            \<lparr>conversation_history := conversation_history context
                @ [\<lparr>msg_role = ''user'', msg_content = JStr message\<rparr>],
             last_interaction := Some (now env)\<rparr>
      in case process_message_try env message context of
           Inr r \<Rightarrow> r
         | Inl e \<Rightarrow>
             \<lparr>reply_text = JStr (apology (exn_type e)),
              reply_links = [],
              reply_context = context\<rparr>)"

text \<open>The context after lines 31--37: created when absent, the user turn appended.\<close>

definition user_turn_appended ::
  "'r conv_env \<Rightarrow> string \<Rightarrow> string \<Rightarrow> user_context option \<Rightarrow> user_context" where
  "user_turn_appended env uid message context =
     (case context of
        Some c \<Rightarrow> c\<lparr>conversation_history := conversation_history c
                       @ [\<lparr>msg_role = ''user'', msg_content = JStr message\<rparr>],
                    last_interaction := Some (now env)\<rparr>
      | None \<Rightarrow> \<lparr>user_id = uid, location = None, preferences = None,
                  conversation_history = [\<lparr>msg_role = ''user'', msg_content = JStr message\<rparr>],
                  last_interaction = Some (now env)\<rparr>)"

section \<open>Sample environments\<close>

text \<open>
  Concrete inputs on which the properties below are run. The two parsers stand for
  \<^verbatim>\<open>date.fromisoformat\<close> and \<^verbatim>\<open>datetime.fromisoformat\<close> on the layouts
  \<^verbatim>\<open>YYYY-MM-DD\<close> and \<^verbatim>\<open>YYYY-MM-DD?HH:MM:SS\<close>, which every Python version that has the
  two functions reads this way; the general theorems do not depend on them.
\<close>

definition digit_value :: "char \<Rightarrow> nat option" where
  "digit_value c = map_of (zip ''0123456789'' [0, 1, 2, 3, 4, 5, 6, 7, 8, 9]) c"

fun decimal :: "string \<Rightarrow> nat \<Rightarrow> nat option" where
  "decimal [] n = Some n"
| "decimal (c # cs) n =
     (case digit_value c of None \<Rightarrow> None | Some d \<Rightarrow> decimal cs (10 * n + d))"

definition date_fromisoformat_core :: "string \<Rightarrow> date option" where
  "date_fromisoformat_core s =
     (if length s = 10 \<and> s ! 4 = CHR ''-'' \<and> s ! 7 = CHR ''-'' then
        (case (decimal (take 4 s) 0, decimal (take 2 (drop 5 s)) 0, decimal (drop 8 s) 0) of
           (Some y, Some m, Some d) \<Rightarrow>
             if 1 \<le> y \<and> 1 \<le> m \<and> m \<le> 12 \<and> 1 \<le> d \<and> d \<le> days_in_month y m
             then Some \<lparr>d_year = y, d_month = m, d_day = d\<rparr> else None
         | _ \<Rightarrow> None)
      else None)"

definition datetime_fromisoformat_core :: "string \<Rightarrow> datetime option" where
  "datetime_fromisoformat_core s =
     (if length s = 10 then
        (case date_fromisoformat_core s of
           None \<Rightarrow> None
         | Some d \<Rightarrow> Some \<lparr>dt_date = d, dt_hour = 0, dt_minute = 0, dt_second = 0\<rparr>)
      else if length s = 19 \<and> s ! 13 = CHR '':'' \<and> s ! 16 = CHR '':'' then
        (case (date_fromisoformat_core (take 10 s), decimal (take 2 (drop 11 s)) 0,
               decimal (take 2 (drop 14 s)) 0, decimal (drop 17 s) 0) of
           (Some d, Some h, Some mi, Some sec) \<Rightarrow>
             if h < 24 \<and> mi < 60 \<and> sec < 60
             then Some \<lparr>dt_date = d, dt_hour = h, dt_minute = mi, dt_second = sec\<rparr> else None
         | _ \<Rightarrow> None)
      else None)"

text \<open>A provider that answers and one that is down, on 28 February 2025.\<close>

definition sample_env :: "string env" where
  "sample_env =
     \<lparr>today = \<lparr>d_year = 2025, d_month = 2, d_day = 28\<rparr>,
      date_fromisoformat = date_fromisoformat_core,
      datetime_fromisoformat = datetime_fromisoformat_core,
      validate = (\<lambda>request. None),
      search = (\<lambda>request. Inr ''provider results'')\<rparr>"

definition provider_down_env :: "string env" where
  "provider_down_env =
     sample_env\<lparr>search := (\<lambda>request. Inl (Exn ''ConnectError'' ''provider unavailable''))\<rparr>"

definition lagos_paris :: entities where
  "lagos_paris = [(''origin'', JStr ''Lagos''), (''destination'', JStr ''Paris'')]"

definition lagos_paris_flight :: request where
  "lagos_paris_flight = FlightSearchReqeust
     \<lparr>f_origin = JStr ''Lagos'', f_destination = JStr ''Paris'',
      f_departure_date = \<lparr>d_year = 2025, d_month = 3, d_day = 1\<rparr>,
      f_return_date = None, f_adults = JNum 1, f_children = JNum 0, f_infants = JNum 0,
      f_cabin_class = JStr ''economy'', f_direct_flights_only = JBool False\<rparr>"

text \<open>
  A turn in which the model answers the extraction request with a dictionary wrapped in
  prose and the synthesis request times out; and a turn in which the model cannot be
  reached at all.
\<close>

definition chat_completion :: "string \<Rightarrow> json" where
  "chat_completion c =
     JObj [(''choices'',
            JArr [JObj [(''message'',
                         JObj [(''role'', JStr ''assistant''), (''content'', JStr c)])]])]"

definition flight_fields :: string where
  \<open>flight_fields = ''"intent": "flight", "origin": "New York", "destination": "Paris"''\<close>

definition sample_model_text :: string where
  "sample_model_text = ''Sure! '' @ CHR ''{'' # flight_fields @ CHR ''}'' # '' done''"

definition new_york_paris :: entities where
  "new_york_paris = [(''intent'', JStr ''flight''), (''origin'', JStr ''New York''),
     (''destination'', JStr ''Paris'')]"

definition sample_json_loads :: "string \<Rightarrow> exn + entities" where
  "sample_json_loads s =
     (if s = CHR ''{'' # flight_fields @ ''}'' then Inr new_york_paris
      else Inl (Exn ''JSONDecodeError'' ''Expecting value''))"

definition sample_chat :: "chat_message list \<Rightarrow> exn + json" where
  "sample_chat msgs =
     (if take 1 msgs = [extraction_system_prompt] then Inr (chat_completion sample_model_text)
      else Inl (Exn ''ReadTimeout'' ''The read operation timed out''))"

definition sample_conv_env :: "string conv_env" where
  "sample_conv_env =
     \<lparr>today = \<lparr>d_year = 2025, d_month = 2, d_day = 28\<rparr>,
      date_fromisoformat = date_fromisoformat_core,
      datetime_fromisoformat = datetime_fromisoformat_core,
      validate = (\<lambda>request. None),
      search = (\<lambda>request. Inr ''provider results''),
      now = 1740700800,
      openai_api_key = ''mock-key'',
      chat = sample_chat,
      json_loads = sample_json_loads,
      json_dumps = (\<lambda>envelope. ''{}'')\<rparr>"

definition offline_conv_env :: "string conv_env" where
  "offline_conv_env =
     sample_conv_env\<lparr>chat := (\<lambda>msgs. Inl (Exn ''ConnectError'' ''All connection attempts failed''))\<rparr>"

definition returning_user :: user_context where
  "returning_user =
     \<lparr>user_id = ''u1'', location = None, preferences = None,
      conversation_history =
        [\<lparr>msg_role = ''user'', msg_content = JStr ''Hello''\<rparr>,
         \<lparr>msg_role = ''assistant'', msg_content = JStr ''Hi, where to?''\<rparr>],
      last_interaction = Some 1740700000\<rparr>"

section \<open>Auxiliary facts\<close>

subsection \<open>Loops that append\<close>

lemma fold_append_map: "fold (\<lambda>x acc. acc @ [f x]) xs acc = acc @ map f xs"
  by (induction xs arbitrary: acc) simp_all

lemma fold_append_map_pair:
  "fold (\<lambda>(a, b) acc. acc @ [f a b]) xs acc = acc @ map (\<lambda>(a, b). f a b) xs"
  by (induction xs arbitrary: acc) (simp_all add: case_prod_unfold)

lemma fold_append_filter:
  "fold (\<lambda>x acc. (let y = g x in if P y then acc @ [y] else acc)) xs acc
     = acc @ filter P (map g xs)"
  by (induction xs arbitrary: acc) (simp_all add: Let_def)

lemma extract_links_str_eq:
  "extract_links_str text
     = generic_marker_links text @ specific_marker_links text @ heuristic_place_links text"
  unfolding extract_links_str_def generic_marker_links_def specific_marker_links_def
    heuristic_place_links_def
  apply (simp only: fold_append_map fold_append_map_pair fold_append_filter)
  apply (simp add: Let_def)
  done

subsection \<open>The specific marker pattern consumes what it matches\<close>







subsection \<open>\<^verbatim>\<open>find\<close>, \<^verbatim>\<open>rfind\<close> and the slice between them\<close>

lemma takeWhile_neq_append:
  "c \<notin> set xs \<Longrightarrow> takeWhile (\<lambda>x. x \<noteq> c) (xs @ ys) = xs @ takeWhile (\<lambda>x. x \<noteq> c) ys"
  by (induction xs) auto

lemma py_find_first: "c \<notin> set pre \<Longrightarrow> py_find c (pre @ c # rest) = int (length pre)"
  by (simp add: py_find_def takeWhile_neq_append)

lemma py_find_absent: "c \<notin> set s \<Longrightarrow> py_find c s = - 1"
  by (simp add: py_find_def)

lemma py_rfind_last: "c \<notin> set post \<Longrightarrow> py_rfind c (pre @ c # post) = int (length pre)"
  by (simp add: py_rfind_def takeWhile_neq_append)

lemma py_rfind_bound: "py_rfind c s < int (length s)"
  by (cases s) (auto simp: py_rfind_def)

lemma py_rfind_before: "c \<notin> set rest \<Longrightarrow> py_rfind c (pre @ rest) = py_rfind c pre"
  by (simp add: py_rfind_def takeWhile_neq_append)

lemma py_slice_middle:
  "py_slice (pre @ mid @ post) (int (length pre)) (int (length pre) + int (length mid)) = mid"
  by (simp add: py_slice_def nat_add_distrib)

lemma content_no_open:
  "CHR ''{'' \<notin> set c \<Longrightarrow> entities_from_content env (JStr c) = Inr general_entities"
  by (simp add: entities_from_content_def py_find_absent)

lemma content_no_close_after:
  assumes "c = pre @ CHR ''{'' # rest" "CHR ''{'' \<notin> set pre" "CHR ''}'' \<notin> set rest"
  shows "entities_from_content env (JStr c) = Inr general_entities"
proof -
  have f: "py_find (CHR ''{'') c = int (length pre)"
    using assms by (simp add: py_find_first)
  have "py_rfind (CHR ''}'') c = py_rfind (CHR ''}'') pre"
    using assms py_rfind_before [of "CHR ''}''" "CHR ''{'' # rest" pre] by simp
  then have "py_rfind (CHR ''}'') c < int (length pre)"
    using py_rfind_bound [of "CHR ''}''" pre] by simp
  with f show ?thesis by (simp add: entities_from_content_def)
qed

lemma content_braces:
  assumes "c = pre @ CHR ''{'' # mid @ CHR ''}'' # post"
    "CHR ''{'' \<notin> set pre" "CHR ''}'' \<notin> set post"
  shows "entities_from_content env (JStr c)
     = (case json_loads env (CHR ''{'' # mid @ ''}'') of
          Inr entities \<Rightarrow> Inr entities
        | Inl e \<Rightarrow> if exn_type e = ''JSONDecodeError'' then Inr general_entities else Inl e)"
proof -
  have f: "py_find (CHR ''{'') c = int (length pre)"
    using assms by (simp add: py_find_first)
  have "c = (pre @ CHR ''{'' # mid) @ CHR ''}'' # post" using assms by simp
  then have r: "py_rfind (CHR ''}'') c = int (length (pre @ CHR ''{'' # mid))"
    using assms(3) py_rfind_last by metis
  have "c = pre @ (CHR ''{'' # mid @ ''}'') @ post" using assms by simp
  then have "py_slice c (int (length pre)) (int (length pre) + int (length (CHR ''{'' # mid @ ''}'')))
     = CHR ''{'' # mid @ ''}''"
    using py_slice_middle by metis
  then have s: "py_slice c (py_find (CHR ''{'') c) (py_rfind (CHR ''}'') c + 1) = CHR ''{'' # mid @ ''}''"
    using f r by (simp add: add.commute add.left_commute)
  show ?thesis
    unfolding entities_from_content_def using s f r by (simp add: Let_def)
qed

subsection \<open>Envelopes of the handlers\<close>

lemma handler_envelope:
  "handle_flight_search env entities = (Inr envelope, calls) \<Longrightarrow>
     \<exists>msg. map_of envelope ''message'' = Some (PStr msg)
       \<and> ((\<exists>r. map_of envelope ''data'' = Some (PData r)) \<longrightarrow> msg \<in> success_messages)
       \<and> ((\<forall>r. map_of envelope ''data'' \<noteq> Some (PData r)) \<longrightarrow> msg \<in> explanatory_messages)"
  "handle_restaurant_search env entities = (Inr envelope, calls) \<Longrightarrow>
     \<exists>msg. map_of envelope ''message'' = Some (PStr msg)
       \<and> ((\<exists>r. map_of envelope ''data'' = Some (PData r)) \<longrightarrow> msg \<in> success_messages)
       \<and> ((\<forall>r. map_of envelope ''data'' \<noteq> Some (PData r)) \<longrightarrow> msg \<in> explanatory_messages)"
  "handle_transport_search env entities = (Inr envelope, calls) \<Longrightarrow>
     \<exists>msg. map_of envelope ''message'' = Some (PStr msg)
       \<and> ((\<exists>r. map_of envelope ''data'' = Some (PData r)) \<longrightarrow> msg \<in> success_messages)
       \<and> ((\<forall>r. map_of envelope ''data'' \<noteq> Some (PData r)) \<longrightarrow> msg \<in> explanatory_messages)"
  by (auto simp: handle_flight_search_def handle_restaurant_search_def
      handle_transport_search_def Let_def explanatory_messages_def success_messages_def
      split: if_splits sum.splits)

lemma placeholder_envelope:
  "handle_hotel_search entities = (Inr envelope, calls) \<Longrightarrow>
     \<exists>msg. map_of envelope ''message'' = Some (PStr msg) \<and> msg \<in> explanatory_messages
       \<and> (\<forall>r. map_of envelope ''data'' \<noteq> Some (PData r))"
  "handle_attraction_search entities = (Inr envelope, calls) \<Longrightarrow>
     \<exists>msg. map_of envelope ''message'' = Some (PStr msg) \<and> msg \<in> explanatory_messages
       \<and> (\<forall>r. map_of envelope ''data'' \<noteq> Some (PData r))"
  "handle_seasonal_advice entities = (Inr envelope, calls) \<Longrightarrow>
     \<exists>msg. map_of envelope ''message'' = Some (PStr msg) \<and> msg \<in> explanatory_messages
       \<and> (\<forall>r. map_of envelope ''data'' \<noteq> Some (PData r))"
  by (auto simp: handle_hotel_search_def handle_attraction_search_def
      handle_seasonal_advice_def explanatory_messages_def)

lemma dispatch_never_raises:
  "\<exists>envelope. fst (process_travel_intent env intent entities) = Inr envelope"
  by (auto simp: process_travel_intent_def process_travel_intent_try_def split: prod.splits sum.splits)

lemma dispatch_no_links_key:
  "fst (process_travel_intent env intent entities) = Inr envelope \<Longrightarrow>
     map_of envelope ''links'' = None"
  by (auto simp: process_travel_intent_def process_travel_intent_try_def handle_flight_search_def
      handle_restaurant_search_def handle_transport_search_def handle_hotel_search_def
      handle_attraction_search_def handle_seasonal_advice_def Let_def
      split: if_splits sum.splits prod.splits)

subsection \<open>The sample environments, evaluated\<close>

lemma lagos_paris_request: "flight_request provider_down_env lagos_paris = Inr lagos_paris_flight"
  by (simp add: flight_request_def flight_departure_date_def parse_date_def dict_get_def
      dict_get_default_def lagos_paris_def lagos_paris_flight_def provider_down_env_def
      sample_env_def plus_one_day_def date_max_def days_in_month_def is_leap_def)

section \<open>Properties of the ModelGateway\<close>

text \<open>
  C1 (code evaluated at the failing input). With the configured default model
  \<^verbatim>\<open>gpt-3.5-turbo\<close> and every request failing, the chain sends three requests and the third
  goes to the identity of the first: the list of attempted identities is not distinct. The
  first fallback is guarded by \<^verbatim>\<open>model != fallback_model\<close>; the final fallback has no such
  guard.
\<close>

theorem default_model_attempted_twice:
  "attempted (snd (generate_response always_timeout settings_default_model None
       \<lparr>attempted = [], world = ()\<rparr>))
     = [''gpt-3.5-turbo'', ''gpt-3.5-turbo-0125'', ''gpt-3.5-turbo'']
   \<and> \<not> distinct (attempted (snd (generate_response always_timeout settings_default_model None
       \<lparr>attempted = [], world = ()\<rparr>)))"
  by (simp add: generate_response_def final_fallback_def make_api_request_def
      always_timeout_def settings_default_model_def Let_def)

text \<open>
  C7. Whenever the first attempt fails with \<open>e\<close> and the first fallback, where the chain
  tries it, fails as well: if the final fallback answers, the caller gets that answer and
  no error; if the final fallback fails too, the caller gets \<open>e\<close>, the failure of the
  first attempt, whatever the later failures were.
\<close>

theorem fallback_chain_outcome:
  assumes primary: "make_api_request api kw_model model s0 = (Inl e, s1)"
    and model: "model = (case kw_model of Some m \<Rightarrow> m | None \<Rightarrow> default_model)"
    and first_fallback:
      "if model \<noteq> ''gpt-3.5-turbo-0125''
       then make_api_request api kw_model ''gpt-3.5-turbo-0125'' s1 = (Inl e1, s2)
       else s2 = s1"
  shows "(\<forall>r s3. make_api_request api kw_model ''gpt-3.5-turbo'' s2 = (Inr r, s3) \<longrightarrow>
            generate_response api default_model kw_model s0 = (Inr r, s3))
       \<and> (\<forall>e2 s3. make_api_request api kw_model ''gpt-3.5-turbo'' s2 = (Inl e2, s3) \<longrightarrow>
            generate_response api default_model kw_model s0 = (Inl e, s3))"
  using assms
  by (auto simp: generate_response_def final_fallback_def Let_def split: if_splits)

theorem fallback_chain_outcome_witness:
  "generate_response third_time_lucky ''gpt-4'' None \<lparr>attempted = [], world = 0\<rparr>
     = (Inr ''answer of gpt-3.5-turbo'',
        \<lparr>attempted = [''gpt-4'', ''gpt-3.5-turbo-0125'', ''gpt-3.5-turbo''], world = 3\<rparr>)
   \<and> generate_response all_fail_numbered ''gpt-4'' None \<lparr>attempted = [], world = 0\<rparr>
     = (Inl (Exn ''TimeoutException'' ''timed out: gpt-4''),
        \<lparr>attempted = [''gpt-4'', ''gpt-3.5-turbo-0125'', ''gpt-3.5-turbo''], world = 3\<rparr>)"
proof -
  let ?s0 = "\<lparr>attempted = [], world = 0::nat\<rparr>"
  let ?s1 = "\<lparr>attempted = [''gpt-4''], world = 1::nat\<rparr>"
  let ?s2 = "\<lparr>attempted = [''gpt-4'', ''gpt-3.5-turbo-0125''], world = 2::nat\<rparr>"
  let ?s3 = "\<lparr>attempted = [''gpt-4'', ''gpt-3.5-turbo-0125'', ''gpt-3.5-turbo''], world = 3::nat\<rparr>"
  have a1: "make_api_request third_time_lucky None ''gpt-4'' ?s0
      = (Inl (Exn ''TimeoutException'' ''timed out: gpt-4''), ?s1)"
    by (simp add: make_api_request_def third_time_lucky_def)
  have a2: "if ''gpt-4'' \<noteq> ''gpt-3.5-turbo-0125''
      then make_api_request third_time_lucky None ''gpt-3.5-turbo-0125'' ?s1
        = (Inl (Exn ''TimeoutException'' ''timed out: gpt-3.5-turbo-0125''), ?s2)
      else ?s2 = ?s1"
    by (simp add: make_api_request_def third_time_lucky_def)
  have a3: "make_api_request third_time_lucky None ''gpt-3.5-turbo'' ?s2
      = (Inr ''answer of gpt-3.5-turbo'', ?s3)"
    by (simp add: make_api_request_def third_time_lucky_def)
  have b1: "make_api_request all_fail_numbered None ''gpt-4'' ?s0
      = (Inl (Exn ''TimeoutException'' ''timed out: gpt-4''), ?s1)"
    by (simp add: make_api_request_def all_fail_numbered_def)
  have b2: "if ''gpt-4'' \<noteq> ''gpt-3.5-turbo-0125''
      then make_api_request all_fail_numbered None ''gpt-3.5-turbo-0125'' ?s1
        = (Inl (Exn ''TimeoutException'' ''timed out: gpt-3.5-turbo-0125''), ?s2)
      else ?s2 = ?s1"
    by (simp add: make_api_request_def all_fail_numbered_def)
  have b3: "make_api_request all_fail_numbered None ''gpt-3.5-turbo'' ?s2
      = (Inl (Exn ''TimeoutException'' ''timed out: gpt-3.5-turbo''), ?s3)"
    by (simp add: make_api_request_def all_fail_numbered_def)
  have m: "''gpt-4'' = (case None :: string option of Some m \<Rightarrow> m | None \<Rightarrow> ''gpt-4'')"
    by simp
  from fallback_chain_outcome [OF a1 m a2] a3
  have "generate_response third_time_lucky ''gpt-4'' None ?s0 = (Inr ''answer of gpt-3.5-turbo'', ?s3)"
    by blast
  moreover from fallback_chain_outcome [OF b1 m b2] b3
  have "generate_response all_fail_numbered ''gpt-4'' None ?s0
      = (Inl (Exn ''TimeoutException'' ''timed out: gpt-4''), ?s3)"
    by blast
  ultimately show ?thesis by simp
qed

section \<open>Properties of the IntentDispatcher\<close>

text \<open>
  C2 (the claim as stated fails). For the intent \<^verbatim>\<open>general\<close> the dispatcher returns
  \<^verbatim>\<open>{"type": "general", "data": None}\<close>: the envelope has no \<^verbatim>\<open>message\<close> field.
\<close>

theorem general_envelope_has_no_message:
  "fst (process_travel_intent sample_env (JStr ''general'') [])
     = Inr [(''type'', PStr ''general''), (''data'', PNone)]
   \<and> map_of [(''type'', PStr ''general''), (''data'', PNone :: string pyval)] ''message'' = None"
  by (simp add: process_travel_intent_def process_travel_intent_try_def)

text \<open>
  C2 (amended). For each of the six intents that have a branch of their own, the
  dispatcher returns an envelope with a \<^verbatim>\<open>message\<close> field holding a string. When that
  envelope carries provider data, the handler returned it and its message is one of the
  three fixed success texts. When it carries no provider data, either the body of the
  \<^verbatim>\<open>try\<close> raised an exception \<open>e\<close> and the envelope is exactly \<^verbatim>\<open>{"type": "error", "message": str(e)}\<close>, or the
  handler returned it and its message is one of the fixed explanatory texts (missing
  slot, coming soon). For every other intent, \<^verbatim>\<open>general\<close> included, the result is exactly
  \<^verbatim>\<open>{"type": "general", "data": None}\<close>, with no provider call.
\<close>

theorem dispatch_message_field:
  "(intent \<in> known_intents \<longrightarrow>
      (\<exists>envelope msg calls.
          process_travel_intent env intent entities = (Inr envelope, calls)
          \<and> map_of envelope ''message'' = Some (PStr msg)
          \<and> ((\<exists>r. map_of envelope ''data'' = Some (PData r)) \<longrightarrow>
                process_travel_intent_try env intent entities = (Inr envelope, calls)
                \<and> msg \<in> success_messages)
          \<and> ((\<forall>r. map_of envelope ''data'' \<noteq> Some (PData r)) \<longrightarrow>
                (\<exists>e. process_travel_intent_try env intent entities = (Inl e, calls)
                    \<and> envelope = [(''type'', PStr ''error''), (''message'', PStr (exn_str e))]
                    \<and> msg = exn_str e)
              \<or> (process_travel_intent_try env intent entities = (Inr envelope, calls)
                    \<and> msg \<in> explanatory_messages)))
    \<and> (\<forall>e calls. process_travel_intent_try env intent entities = (Inl e, calls) \<longrightarrow>
          process_travel_intent env intent entities
            = (Inr [(''type'', PStr ''error''), (''message'', PStr (exn_str e))], calls)))
   \<and> (intent \<notin> known_intents \<longrightarrow>
      process_travel_intent env intent entities
        = (Inr [(''type'', PStr ''general''), (''data'', PNone)], []))"
proof (intro conjI impI allI)
  assume "intent \<notin> known_intents"
  then show "process_travel_intent env intent entities
        = (Inr [(''type'', PStr ''general''), (''data'', PNone)], [])"
    by (simp add: known_intents_def process_travel_intent_def process_travel_intent_try_def)
next
  fix e calls
  assume "process_travel_intent_try env intent entities = (Inl e, calls)"
  then show "process_travel_intent env intent entities
            = (Inr [(''type'', PStr ''error''), (''message'', PStr (exn_str e))], calls)"
    by (simp add: process_travel_intent_def)
next
  assume k: "intent \<in> known_intents"
  obtain res calls where h: "process_travel_intent_try env intent entities = (res, calls)"
    by (cases "process_travel_intent_try env intent entities")
  show "\<exists>envelope msg calls.
          process_travel_intent env intent entities = (Inr envelope, calls)
          \<and> map_of envelope ''message'' = Some (PStr msg)
          \<and> ((\<exists>r. map_of envelope ''data'' = Some (PData r)) \<longrightarrow>
                process_travel_intent_try env intent entities = (Inr envelope, calls)
                \<and> msg \<in> success_messages)
          \<and> ((\<forall>r. map_of envelope ''data'' \<noteq> Some (PData r)) \<longrightarrow>
                (\<exists>e. process_travel_intent_try env intent entities = (Inl e, calls)
                    \<and> envelope = [(''type'', PStr ''error''), (''message'', PStr (exn_str e))]
                    \<and> msg = exn_str e)
              \<or> (process_travel_intent_try env intent entities = (Inr envelope, calls)
                    \<and> msg \<in> explanatory_messages))"
  proof (cases res)
    case (Inl e)
    with h have "process_travel_intent env intent entities
        = (Inr [(''type'', PStr ''error''), (''message'', PStr (exn_str e))], calls)"
      by (simp add: process_travel_intent_def)
    with h Inl show ?thesis by simp
  next
    case (Inr envelope)
    have "\<exists>msg. map_of envelope ''message'' = Some (PStr msg)
       \<and> ((\<exists>r. map_of envelope ''data'' = Some (PData r)) \<longrightarrow> msg \<in> success_messages)
       \<and> ((\<forall>r. map_of envelope ''data'' \<noteq> Some (PData r)) \<longrightarrow> msg \<in> explanatory_messages)"
    proof (cases "intent = JStr ''flight'' \<or> intent = JStr ''restaurant''
        \<or> intent = JStr ''transport''")
      case True
      with h Inr show ?thesis
        using handler_envelope [of env entities envelope calls]
        by (auto simp: process_travel_intent_try_def split: if_splits)
    next
      case False
      with h Inr k show ?thesis
        using placeholder_envelope [of entities envelope calls]
        by (auto simp: process_travel_intent_try_def known_intents_def split: if_splits)
    qed
    moreover from h Inr have "process_travel_intent env intent entities = (Inr envelope, calls)"
      by (simp add: process_travel_intent_def)
    ultimately show ?thesis using h Inr by auto
  qed
qed

theorem dispatch_message_field_witness:
  "(\<exists>envelope msg calls.
      process_travel_intent sample_env (JStr ''hotel'') [] = (Inr envelope, calls)
      \<and> map_of envelope ''message'' = Some (PStr msg))
   \<and> process_travel_intent sample_env (JStr ''small talk'') []
       = (Inr [(''type'', PStr ''general''), (''data'', PNone)], [])
   \<and> process_travel_intent provider_down_env (JStr ''flight'') lagos_paris
       = (Inr [(''type'', PStr ''error''), (''message'', PStr ''provider unavailable'')],
          [lagos_paris_flight])
   \<and> process_travel_intent sample_env (JStr ''transport'')
         [(''origin'', JStr ''Lagos''), (''destination'', JStr ''Paris''),
          (''transport_modes'', JNum 5)]
       = (Inr [(''type'', PStr ''error''),
               (''message'', PStr (CHR 0x27 # ''int'' @ CHR 0x27 # '' object is not iterable''))],
          [])"
proof -
  let ?modes = "[(''origin'', JStr ''Lagos''), (''destination'', JStr ''Paris''),
                 (''transport_modes'', JNum 5)]"
  have a: "JStr ''hotel'' \<in> known_intents" by (simp add: known_intents_def)
  have b: "JStr ''small talk'' \<notin> known_intents" by (simp add: known_intents_def)
  have c: "JStr ''flight'' \<in> known_intents" by (simp add: known_intents_def)
  have d: "JStr ''transport'' \<in> known_intents" by (simp add: known_intents_def)
  have tc: "process_travel_intent_try provider_down_env (JStr ''flight'') lagos_paris
      = (Inl (Exn ''ConnectError'' ''provider unavailable''), [lagos_paris_flight])"
    by (simp add: process_travel_intent_try_def handle_flight_search_def lagos_paris_request)
      (simp add: provider_down_env_def sample_env_def lagos_paris_def dict_get_def)
  have td: "process_travel_intent_try sample_env (JStr ''transport'') ?modes
      = (Inl (Exn ''TypeError'' (CHR 0x27 # ''int'' @ CHR 0x27 # '' object is not iterable'')), [])"
    by (simp add: process_travel_intent_try_def handle_transport_search_def
        transport_request_def transport_departure_date_def parse_datetime_def
        parse_transport_modes_def iterate_def quoted_def dict_get_def sample_env_def
        plus_one_day_def date_max_def days_in_month_def is_leap_def)
  from dispatch_message_field [of "JStr ''hotel''" sample_env "[]"] a
  have "\<exists>envelope msg calls.
      process_travel_intent sample_env (JStr ''hotel'') [] = (Inr envelope, calls)
      \<and> map_of envelope ''message'' = Some (PStr msg)"
    by blast
  moreover from dispatch_message_field [of "JStr ''small talk''" sample_env "[]"] b
  have "process_travel_intent sample_env (JStr ''small talk'') []
       = (Inr [(''type'', PStr ''general''), (''data'', PNone)], [])"
    by blast
  moreover from dispatch_message_field [of "JStr ''flight''" provider_down_env lagos_paris] c tc
  have "process_travel_intent provider_down_env (JStr ''flight'') lagos_paris
       = (Inr [(''type'', PStr ''error''), (''message'', PStr ''provider unavailable'')],
          [lagos_paris_flight])"
    by simp
  moreover from dispatch_message_field [of "JStr ''transport''" sample_env ?modes] d td
  have "process_travel_intent sample_env (JStr ''transport'') ?modes
       = (Inr [(''type'', PStr ''error''),
               (''message'', PStr (CHR 0x27 # ''int'' @ CHR 0x27 # '' object is not iterable''))],
          [])"
    by simp
  ultimately show ?thesis by blast
qed

text \<open>
  C3 (the claim as stated fails). The provider's search raises, and the dispatcher
  returns an envelope of type \<^verbatim>\<open>error\<close> with the text of the exception: nothing is raised
  to the caller.
\<close>

theorem provider_failure_not_raised:
  "search provider_down_env lagos_paris_flight = Inl (Exn ''ConnectError'' ''provider unavailable'')
   \<and> process_travel_intent provider_down_env (JStr ''flight'') lagos_paris
       = (Inr [(''type'', PStr ''error''), (''message'', PStr ''provider unavailable'')],
          [lagos_paris_flight])
   \<and> fst (process_travel_intent provider_down_env (JStr ''flight'') lagos_paris)
       \<noteq> Inl (Exn ''ConnectError'' ''provider unavailable'')"
  by (simp add: process_travel_intent_def process_travel_intent_try_def handle_flight_search_def lagos_paris_request)
    (simp add: provider_down_env_def sample_env_def lagos_paris_def dict_get_def)

text \<open>
  C3 (amended). For each of the three intents that call a provider (flight, restaurant,
  transport): when the required slots are present, the request is built and validated,
  and the provider's search raises \<open>e\<close>, the dispatcher catches \<open>e\<close> and returns the
  envelope \<^verbatim>\<open>{"type": "error", "message": str(e)}\<close>, after exactly that one provider call.
\<close>

theorem provider_failure_returned_as_envelope:
  "(truthy (dict_get entities ''origin'') \<and> truthy (dict_get entities ''destination'')
      \<and> flight_request env entities = Inr request \<and> search env request = Inl e
    \<longrightarrow> process_travel_intent env (JStr ''flight'') entities
          = (Inr [(''type'', PStr ''error''), (''message'', PStr (exn_str e))], [request]))
   \<and> (truthy (dict_get entities ''location'')
      \<and> restaurant_request env entities = Inr request \<and> search env request = Inl e
    \<longrightarrow> process_travel_intent env (JStr ''restaurant'') entities
          = (Inr [(''type'', PStr ''error''), (''message'', PStr (exn_str e))], [request]))
   \<and> (truthy (dict_get entities ''origin'') \<and> truthy (dict_get entities ''destination'')
      \<and> transport_request env entities = Inr request \<and> search env request = Inl e
    \<longrightarrow> process_travel_intent env (JStr ''transport'') entities
          = (Inr [(''type'', PStr ''error''), (''message'', PStr (exn_str e))], [request]))"
  by (simp add: process_travel_intent_def process_travel_intent_try_def handle_flight_search_def handle_restaurant_search_def
      handle_transport_search_def)

theorem provider_failure_returned_as_envelope_witness:
  "process_travel_intent provider_down_env (JStr ''flight'') lagos_paris
       = (Inr [(''type'', PStr ''error''), (''message'', PStr ''provider unavailable'')],
          [lagos_paris_flight])"
proof -
  have "truthy (dict_get lagos_paris ''origin'') \<and> truthy (dict_get lagos_paris ''destination'')
      \<and> flight_request provider_down_env lagos_paris = Inr lagos_paris_flight
      \<and> search provider_down_env lagos_paris_flight
          = Inl (Exn ''ConnectError'' ''provider unavailable'')"
    by (simp add: lagos_paris_request)
      (simp add: provider_down_env_def sample_env_def lagos_paris_def dict_get_def)
  with provider_failure_returned_as_envelope
    [of lagos_paris provider_down_env lagos_paris_flight
        "Exn ''ConnectError'' ''provider unavailable''"]
  show ?thesis by simp
qed

text \<open>
  C4 (the claim as stated fails). For transport the first parser tried on
  \<^verbatim>\<open>2025-03-04\<close> is the datetime parser, which reads it as midnight, and the date parser
  is not tried at all. For flight only the date parser is tried: on
  \<^verbatim>\<open>2025-03-04T09:30:00\<close>, which the datetime parser reads, the value counts as absent
  and the departure date is tomorrow (1 March 2025).
\<close>

theorem departure_date_parse_order_counterexample:
  "fst (parse_datetime sample_env (JStr ''2025-03-04'')) = [DatetimeFromIso]
   \<and> snd (parse_datetime sample_env (JStr ''2025-03-04''))
       = Some \<lparr>dt_date = \<lparr>d_year = 2025, d_month = 3, d_day = 4\<rparr>,
               dt_hour = 0, dt_minute = 0, dt_second = 0\<rparr>
   \<and> fst (parse_date sample_env (JStr ''2025-03-04T09:30:00'')) = [DateFromIso]
   \<and> datetime_fromisoformat sample_env ''2025-03-04T09:30:00''
       = Some \<lparr>dt_date = \<lparr>d_year = 2025, d_month = 3, d_day = 4\<rparr>,
               dt_hour = 9, dt_minute = 30, dt_second = 0\<rparr>
   \<and> flight_departure_date sample_env [(''departure_date'', JStr ''2025-03-04T09:30:00'')]
       = Inr \<lparr>d_year = 2025, d_month = 3, d_day = 1\<rparr>"
  by (simp add: parse_datetime_def parse_date_def flight_departure_date_def sample_env_def
      datetime_fromisoformat_core_def date_fromisoformat_core_def digit_value_def
      days_in_month_def is_leap_def dict_get_def plus_one_day_def date_max_def)

text \<open>
  C4 (amended). For every non-empty departure-date string \<open>s\<close> (and a clock that is not
  at \<^verbatim>\<open>date.max\<close>): the flight handler tries the calendar-date parser only, and takes
  tomorrow when it fails; the transport handler tries the datetime parser first and the
  calendar-date parser only if that fails (a date then counts as that day at 12:00), and
  takes tomorrow at 12:00 when both fail. No error is raised in either case.
\<close>

theorem departure_date_parse_order:
  assumes "s \<noteq> []" and "dict_get entities ''departure_date'' = JStr s"
    and "plus_one_day (today env) = Inr tomorrow"
  shows "parse_date env (JStr s) = ([DateFromIso], date_fromisoformat env s)
       \<and> flight_departure_date env entities
           = Inr (case date_fromisoformat env s of Some d \<Rightarrow> d | None \<Rightarrow> tomorrow)
       \<and> parse_datetime env (JStr s)
           = (case datetime_fromisoformat env s of
                Some dt \<Rightarrow> ([DatetimeFromIso], Some dt)
              | None \<Rightarrow> ([DatetimeFromIso, DateFromIso],
                         map_option combine_noon (date_fromisoformat env s)))
       \<and> transport_departure_date env entities
           = Inr (case datetime_fromisoformat env s of
                    Some dt \<Rightarrow> dt
                  | None \<Rightarrow> (case date_fromisoformat env s of
                               Some d \<Rightarrow> combine_noon d
                             | None \<Rightarrow> combine_noon tomorrow))"
  using assms
  by (auto simp: parse_date_def parse_datetime_def flight_departure_date_def
      transport_departure_date_def split: option.splits)

theorem departure_date_parse_order_witness:
  "flight_departure_date sample_env [(''departure_date'', JStr ''next friday'')]
       = Inr \<lparr>d_year = 2025, d_month = 3, d_day = 1\<rparr>
   \<and> transport_departure_date sample_env [(''departure_date'', JStr ''next friday'')]
       = Inr \<lparr>dt_date = \<lparr>d_year = 2025, d_month = 3, d_day = 1\<rparr>,
              dt_hour = 12, dt_minute = 0, dt_second = 0\<rparr>
   \<and> fst (parse_datetime sample_env (JStr ''next friday'')) = [DatetimeFromIso, DateFromIso]"
proof -
  have a: "''next friday'' \<noteq> []" by simp
  have b: "dict_get [(''departure_date'', JStr ''next friday'')] ''departure_date''
      = JStr ''next friday''"
    by (simp add: dict_get_def)
  have c: "plus_one_day (today sample_env) = Inr \<lparr>d_year = 2025, d_month = 3, d_day = 1\<rparr>"
    by (simp add: sample_env_def plus_one_day_def date_max_def days_in_month_def is_leap_def)
  have d: "date_fromisoformat sample_env ''next friday'' = None"
    by (simp add: sample_env_def date_fromisoformat_core_def)
  have e: "datetime_fromisoformat sample_env ''next friday'' = None"
    by (simp add: sample_env_def datetime_fromisoformat_core_def)
  from departure_date_parse_order [OF a b c] d e show ?thesis
    by (simp add: combine_noon_def)
qed

text \<open>
  C6. For a flight or a transport dispatch in which the \<^verbatim>\<open>origin\<close> or the
  \<^verbatim>\<open>destination\<close> slot is missing or falsy (\<^verbatim>\<open>None\<close>, empty), the dispatcher returns the
  envelope of that type with \<^verbatim>\<open>data\<close> \<^verbatim>\<open>None\<close> and the message that names the missing
  slots, and the list of provider calls is empty.
\<close>

theorem missing_slot_no_provider_call:
  assumes "\<not> truthy (dict_get entities ''origin'') \<or> \<not> truthy (dict_get entities ''destination'')"
  shows "process_travel_intent env (JStr ''flight'') entities
           = (Inr [(''type'', PStr ''flight''), (''data'', PNone),
                   (''message'', PStr ''Missing origin or destination for flight search'')], [])
       \<and> process_travel_intent env (JStr ''transport'') entities
           = (Inr [(''type'', PStr ''transport''), (''data'', PNone),
                   (''message'', PStr ''Missing origin or destination for transport search'')], [])"
  using assms
  by (auto simp: process_travel_intent_def process_travel_intent_try_def handle_flight_search_def handle_transport_search_def)

theorem missing_slot_no_provider_call_witness:
  "process_travel_intent provider_down_env (JStr ''flight'')
       [(''origin'', JStr ''Lagos''), (''destination'', JStr '''')]
     = (Inr [(''type'', PStr ''flight''), (''data'', PNone),
             (''message'', PStr ''Missing origin or destination for flight search'')], [])
   \<and> process_travel_intent provider_down_env (JStr ''transport'')
       [(''origin'', JStr ''Lagos''), (''destination'', JStr '''')]
     = (Inr [(''type'', PStr ''transport''), (''data'', PNone),
             (''message'', PStr ''Missing origin or destination for transport search'')], [])"
proof -
  have "\<not> truthy (dict_get [(''origin'', JStr ''Lagos''), (''destination'', JStr '''')] ''origin'')
      \<or> \<not> truthy (dict_get [(''origin'', JStr ''Lagos''), (''destination'', JStr '''')]
            ''destination'')"
    by (simp add: dict_get_def)
  from missing_slot_no_provider_call [OF this] show ?thesis .
qed

section \<open>Properties of the EntityExtractor and the ConversationOrchestrator\<close>

lemma sample_extraction:
  assumes "openai_api_key env \<noteq> []"
    and "chat env (extraction_messages message ctx) = Inr (chat_completion sample_model_text)"
    and "json_loads env = sample_json_loads"
  shows "extract_entities env message ctx = Inr new_york_paris"
proof -
  have rc: "response_content (chat_completion sample_model_text) = Inr (JStr sample_model_text)"
    by (simp add: response_content_def chat_completion_def py_getitem_key_def py_getitem_0_def)
  have "CHR ''{'' \<notin> set ''Sure! ''" and "CHR ''}'' \<notin> set '' done''" by simp_all
  then have "entities_from_content env (JStr sample_model_text) = Inr new_york_paris"
    using content_braces [of sample_model_text "''Sure! ''" flight_fields "'' done''" env] assms(3)
    by (simp add: sample_model_text_def sample_json_loads_def)
  with assms rc show ?thesis by (simp add: extract_entities_def)
qed

text \<open>
  C8. With a client that could be constructed (the API key is not empty) the extractor
  always returns and never raises. It returns exactly \<^verbatim>\<open>{"intent": "general"}\<close> when the
  gateway call fails, when the content has no \<^verbatim>\<open>{\<close>, and when no \<^verbatim>\<open>}\<close> follows the first
  \<^verbatim>\<open>{\<close>. Otherwise the text from the first \<^verbatim>\<open>{\<close> to the last \<^verbatim>\<open>}\<close> is given to
  \<^verbatim>\<open>json.loads\<close>: the result is what it returns, and \<^verbatim>\<open>{"intent": "general"}\<close> when it
  raises.
\<close>

theorem extract_entities_degrades:
  assumes key: "openai_api_key env \<noteq> []"
  shows "(\<exists>entities. extract_entities env message ctx = Inr entities)
   \<and> (\<forall>e. chat env (extraction_messages message ctx) = Inl e \<longrightarrow>
        extract_entities env message ctx = Inr general_entities)
   \<and> (\<forall>response c. chat env (extraction_messages message ctx) = Inr response
          \<and> response_content response = Inr (JStr c) \<longrightarrow>
        (CHR ''{'' \<notin> set c \<longrightarrow> extract_entities env message ctx = Inr general_entities)
      \<and> (\<forall>pre rest. c = pre @ CHR ''{'' # rest \<and> CHR ''{'' \<notin> set pre \<and> CHR ''}'' \<notin> set rest \<longrightarrow>
            extract_entities env message ctx = Inr general_entities)
      \<and> (\<forall>pre mid post. c = pre @ CHR ''{'' # mid @ CHR ''}'' # post
              \<and> CHR ''{'' \<notin> set pre \<and> CHR ''}'' \<notin> set post \<longrightarrow>
            extract_entities env message ctx
              = Inr (case json_loads env (CHR ''{'' # mid @ ''}'') of
                       Inr entities \<Rightarrow> entities
                     | Inl e \<Rightarrow> general_entities)))"
proof (intro conjI allI impI)
  show "\<exists>entities. extract_entities env message ctx = Inr entities"
    using key by (simp add: extract_entities_def)
next
  fix e assume "chat env (extraction_messages message ctx) = Inl e"
  then show "extract_entities env message ctx = Inr general_entities"
    using key by (simp add: extract_entities_def)
next
  fix response c
  assume a: "chat env (extraction_messages message ctx) = Inr response
          \<and> response_content response = Inr (JStr c)"
  assume "CHR ''{'' \<notin> set c"
  then show "extract_entities env message ctx = Inr general_entities"
    using key a by (simp add: extract_entities_def content_no_open)
next
  fix response c pre rest
  assume a: "chat env (extraction_messages message ctx) = Inr response
          \<and> response_content response = Inr (JStr c)"
  assume "c = pre @ CHR ''{'' # rest \<and> CHR ''{'' \<notin> set pre \<and> CHR ''}'' \<notin> set rest"
  then have "entities_from_content env (JStr c) = Inr general_entities"
    using content_no_close_after by blast
  then show "extract_entities env message ctx = Inr general_entities"
    using key a by (simp add: extract_entities_def)
next
  fix response c pre mid post
  assume a: "chat env (extraction_messages message ctx) = Inr response
          \<and> response_content response = Inr (JStr c)"
  assume "c = pre @ CHR ''{'' # mid @ CHR ''}'' # post
              \<and> CHR ''{'' \<notin> set pre \<and> CHR ''}'' \<notin> set post"
  then have "entities_from_content env (JStr c)
     = (case json_loads env (CHR ''{'' # mid @ ''}'') of
          Inr entities \<Rightarrow> Inr entities
        | Inl e \<Rightarrow> if exn_type e = ''JSONDecodeError'' then Inr general_entities else Inl e)"
    using content_braces by blast
  then show "extract_entities env message ctx
              = Inr (case json_loads env (CHR ''{'' # mid @ ''}'') of
                       Inr entities \<Rightarrow> entities
                     | Inl e \<Rightarrow> general_entities)"
    using key a by (simp add: extract_entities_def split: sum.splits)
qed

theorem extract_entities_degrades_witness:
  "extract_entities sample_conv_env ''I need a flight from NYC to Paris'' returning_user
     = Inr new_york_paris
   \<and> extract_entities offline_conv_env ''I need a flight from NYC to Paris'' returning_user
     = Inr general_entities"
proof -
  let ?m = "''I need a flight from NYC to Paris''"
  have k1: "openai_api_key sample_conv_env \<noteq> []" by (simp add: sample_conv_env_def)
  have k2: "openai_api_key offline_conv_env \<noteq> []"
    by (simp add: offline_conv_env_def sample_conv_env_def)
  have c1: "chat sample_conv_env (extraction_messages ?m returning_user)
      = Inr (chat_completion sample_model_text)
    \<and> response_content (chat_completion sample_model_text) = Inr (JStr sample_model_text)"
    by (simp add: sample_conv_env_def sample_chat_def extraction_messages_def
        returning_user_def response_content_def chat_completion_def py_getitem_key_def
        py_getitem_0_def)
  have d: "sample_model_text = ''Sure! '' @ CHR ''{'' # flight_fields @ CHR ''}'' # '' done''
      \<and> CHR ''{'' \<notin> set ''Sure! '' \<and> CHR ''}'' \<notin> set '' done''"
    by (simp add: sample_model_text_def)
  have l: "json_loads sample_conv_env (CHR ''{'' # flight_fields @ ''}'') = Inr new_york_paris"
    by (simp add: sample_conv_env_def sample_json_loads_def)
  have c2: "chat offline_conv_env (extraction_messages ?m returning_user)
      = Inl (Exn ''ConnectError'' ''All connection attempts failed'')"
    by (simp add: offline_conv_env_def)
  from extract_entities_degrades [OF k1, of ?m returning_user] c1 d
  have "extract_entities sample_conv_env ?m returning_user
      = Inr (case json_loads sample_conv_env (CHR ''{'' # flight_fields @ ''}'') of
               Inr entities \<Rightarrow> entities | Inl e \<Rightarrow> general_entities)"
    by blast
  moreover from extract_entities_degrades [OF k2, of ?m returning_user] c2
  have "extract_entities offline_conv_env ?m returning_user = Inr general_entities"
    by blast
  ultimately show ?thesis using l by simp
qed

text \<open>
  C5. If, in a turn, entity extraction and dispatch have returned and response synthesis
  raises \<open>e\<close>, \<^verbatim>\<open>process_message\<close> returns (it does not raise) the apology text
  \<^verbatim>\<open>I'm having trouble processing your request. There was an error: \<close>\<open>T\<close>\<^verbatim>\<open>. Please try
  again in a moment, or let me know if I can help with something else.\<close>, where \<open>T\<close> is
  the name of the class of \<open>e\<close>, an empty list of links, and the context as it was after the user turn
  was appended: the history is the old history followed by the user turn, with no
  assistant turn and no rollback.
\<close>

theorem synthesis_failure_reply:
  assumes ctx: "ctx = user_turn_appended env uid message context"
    and ex: "extract_entities env message ctx = Inr entities"
    and disp: "fst (process_travel_intent env
                 (dict_get_default entities ''intent'' (JStr ''general'')) entities)
              = Inr handler_response"
    and syn: "generate_response_text env message entities handler_response ctx = Inl e"
  shows "process_message env uid message context
           = \<lparr>reply_text = JStr
                (''I'm having trouble processing your request. There was an error: ''
                 @ exn_type e
                 @ ''. Please try again in a moment, or let me know if I can help with something else.''),
              reply_links = [], reply_context = ctx\<rparr>
       \<and> conversation_history ctx
           = (case context of Some c \<Rightarrow> conversation_history c | None \<Rightarrow> [])
               @ [\<lparr>msg_role = ''user'', msg_content = JStr message\<rparr>]"
proof -
  have c: "(let context = (case context of
                       Some c \<Rightarrow> c
                     | None \<Rightarrow> \<lparr>user_id = uid, location = None, preferences = None,
                                 conversation_history = [], last_interaction = None\<rparr>)
            in context
            \<lparr>conversation_history := conversation_history context
                @ [\<lparr>msg_role = ''user'', msg_content = JStr message\<rparr>],
             last_interaction := Some (now env)\<rparr>) = ctx"
    unfolding ctx user_turn_appended_def by (cases "context") simp_all
  have t: "process_message_try env message ctx = Inl e"
    using ex disp syn by (simp add: process_message_try_def)
  have "process_message env uid message context
           = \<lparr>reply_text = JStr
                (''I'm having trouble processing your request. There was an error: ''
                 @ exn_type e
                 @ ''. Please try again in a moment, or let me know if I can help with something else.''),
              reply_links = [], reply_context = ctx\<rparr>"
    using c t unfolding process_message_def Let_def by (simp add: apology_def)
  moreover have "conversation_history ctx
           = (case context of Some c \<Rightarrow> conversation_history c | None \<Rightarrow> [])
               @ [\<lparr>msg_role = ''user'', msg_content = JStr message\<rparr>]"
    unfolding ctx user_turn_appended_def by (cases "context") simp_all
  ultimately show ?thesis by simp
qed

theorem synthesis_failure_reply_witness:
  "process_message sample_conv_env ''u1'' ''I need a flight from NYC to Paris'' (Some returning_user)
     = \<lparr>reply_text = JStr ''I'm having trouble processing your request. There was an error: ReadTimeout. Please try again in a moment, or let me know if I can help with something else.'',
        reply_links = [],
        reply_context = returning_user
          \<lparr>conversation_history :=
             [\<lparr>msg_role = ''user'', msg_content = JStr ''Hello''\<rparr>,
              \<lparr>msg_role = ''assistant'', msg_content = JStr ''Hi, where to?''\<rparr>,
              \<lparr>msg_role = ''user'', msg_content = JStr ''I need a flight from NYC to Paris''\<rparr>],
           last_interaction := Some 1740700800\<rparr>\<rparr>"
proof -
  let ?m = "''I need a flight from NYC to Paris''"
  let ?ctx = "user_turn_appended sample_conv_env ''u1'' ?m (Some returning_user)"
  let ?env = "[(''type'', PStr ''flight''), (''data'', PData ''provider results''),
               (''message'', PStr ''Flight options retrieved successfully'')]"
  have ctx: "?ctx = returning_user
          \<lparr>conversation_history :=
             [\<lparr>msg_role = ''user'', msg_content = JStr ''Hello''\<rparr>,
              \<lparr>msg_role = ''assistant'', msg_content = JStr ''Hi, where to?''\<rparr>,
              \<lparr>msg_role = ''user'', msg_content = JStr ?m\<rparr>],
           last_interaction := Some 1740700800\<rparr>"
    by (simp add: user_turn_appended_def returning_user_def sample_conv_env_def)
  have ex: "extract_entities sample_conv_env ?m ?ctx = Inr new_york_paris"
    by (rule sample_extraction)
      (simp_all add: sample_conv_env_def sample_chat_def extraction_messages_def)
  have disp: "fst (process_travel_intent sample_conv_env
                 (dict_get_default new_york_paris ''intent'' (JStr ''general'')) new_york_paris)
              = Inr ?env"
    by (simp add: process_travel_intent_def process_travel_intent_try_def handle_flight_search_def flight_request_def
        flight_departure_date_def parse_date_def dict_get_def dict_get_default_def
        new_york_paris_def sample_conv_env_def plus_one_day_def date_max_def
        days_in_month_def is_leap_def)
  have syn: "generate_response_text sample_conv_env ?m new_york_paris ?env ?ctx
      = Inl (Exn ''ReadTimeout'' ''The read operation timed out'')"
    by (simp add: generate_response_text_def synthesis_messages_def sample_conv_env_def
        sample_chat_def persona_system_prompt_def extraction_system_prompt_def Let_def)
  from synthesis_failure_reply [OF refl ex disp syn] ctx show ?thesis by simp
qed

section \<open>Properties of the LinkExtractor\<close>




text \<open>
  C10. \<^verbatim>\<open>extract_links\<close> always returns a list. For a text it is the links of the generic
  markers, then those of the specific markers, then the heuristic place links; whenever
  the body raises, the result is the empty list.
\<close>

theorem extract_links_order:
  "extract_links (JStr text)
     = generic_marker_links text @ specific_marker_links text @ heuristic_place_links text
   \<and> (\<forall>e. extract_links_try v = Inl e \<longrightarrow> extract_links v = [])"
  by (simp add: extract_links_def extract_links_try_def extract_links_str_eq)

theorem extract_links_order_witness:
  "extract_links (JStr ''Fly <link:https://x.example/|Book now> <Links to book flights>'')
     = [\<lparr>link_url = ''https://www.skyscanner.com/'', link_text = ''Find book flights'',
         link_type = ''general''\<rparr>,
        \<lparr>link_url = ''https://x.example/'', link_text = ''Book now'', link_type = ''specific''\<rparr>]
   \<and> extract_links JNull = []"
proof -
  let ?t = "''Fly <link:https://x.example/|Book now> <Links to book flights>''"
  have g: "generic_marker_links ?t
      = [\<lparr>link_url = ''https://www.skyscanner.com/'', link_text = ''Find book flights'',
          link_type = ''general''\<rparr>]"
    by (simp add: generic_marker_links_def generic_link_pattern_def specific_link_pattern_def
        generate_placeholder_url_def py_lower_def lower_char_def py_strip_def is_space_def)
  have s: "specific_marker_links ?t
      = [\<lparr>link_url = ''https://x.example/'', link_text = ''Book now'', link_type = ''specific''\<rparr>]"
    by (simp add: specific_marker_links_def specific_link_pattern_def)
  have h: "heuristic_place_links ?t = []"
    by (simp add: heuristic_place_links_def py_lower_def lower_char_def)
  have n: "extract_links_try JNull = Inl (Exn ''TypeError'' ''expected string or bytes-like object'')"
    by (simp add: extract_links_try_def)
  from extract_links_order [of ?t JNull] g s h n show ?thesis by simp
qed

end
